theory Spec2Isabelle
  imports Main "HOL-Library.Sublist"
begin

section \<open>Python values\<close>

text \<open>
  The values that travel between the backend, the client and the tools are parsed JSON:
  Python's \<open>None\<close>, booleans, integers, strings, lists and dictionaries. A dictionary is
  an association list in insertion order. A string is a list of bytes (UTF-8), so a
  character outside ASCII is written as its bytes.
\<close>

datatype json =
    JNull
  | JBool bool
  | JInt int
  | JStr string
  | JList "json list"
  | JDict "(string \<times> json) list"

text \<open>
  The exceptions the program raises or lets through: \<open>fastapi.HTTPException\<close> with its
  status code and detail, \<open>httpx.HTTPStatusError\<close> with the status of the response that
  \<open>raise_for_status\<close> refused and its message, and any other Python exception, kept as
  its class name and the text \<open>str\<close> gives for it.
\<close>

datatype exn =
    HTTPException nat string
  | HTTPStatusError nat string
  | PyError string string

text \<open>\<open>d.get(k)\<close>: the entry, or \<open>None\<close> when the key is missing.\<close>

definition dict_get :: "(string \<times> json) list \<Rightarrow> string \<Rightarrow> json" where
  "dict_get d k = (case map_of d k of None \<Rightarrow> JNull | Some v \<Rightarrow> v)"

text \<open>\<open>d.get(k, default)\<close>.\<close>

definition dict_get_default :: "(string \<times> json) list \<Rightarrow> string \<Rightarrow> json \<Rightarrow> json" where
  "dict_get_default d k dflt = (case map_of d k of None \<Rightarrow> dflt | Some v \<Rightarrow> v)"

text \<open>The name Python gives the type of a value.\<close>

fun type_name :: "json \<Rightarrow> string" where
  "type_name JNull = ''NoneType''"
| "type_name (JBool b) = ''bool''"
| "type_name (JInt i) = ''int''"
| "type_name (JStr s) = ''str''"
| "type_name (JList xs) = ''list''"
| "type_name (JDict d) = ''dict''"

text \<open>
  \<open>v[k]\<close> with a string key: the entry of a dictionary, \<open>KeyError\<close> when it is missing
  (whose text is the key's \<open>repr\<close>), \<open>TypeError\<close> on a value that is not a dictionary,
  with the text Python (3.11 and later) gives for its type.
\<close>

definition subscript :: "json \<Rightarrow> string \<Rightarrow> exn + json" where
  "subscript v k =
     (case v of
        JDict d \<Rightarrow>
          (case map_of d k of
             None \<Rightarrow> Inl (PyError ''KeyError'' ([CHR 0x27] @ k @ [CHR 0x27]))
           | Some x \<Rightarrow> Inr x)
      | JStr s \<Rightarrow>
          Inl (PyError ''TypeError''
                 (''string indices must be integers, not '' @ [CHR 0x27] @ ''str'' @ [CHR 0x27]))
      | JList xs \<Rightarrow>
          Inl (PyError ''TypeError'' ''list indices must be integers or slices, not str'')
      | _ \<Rightarrow>
          Inl (PyError ''TypeError''
                 ([CHR 0x27] @ type_name v @ [CHR 0x27] @ '' object is not subscriptable'')))"

text \<open>
  The number of code points of a text in UTF-8: the bytes that are not continuation
  bytes (\<open>0x80\<close> to \<open>0xBF\<close>).
\<close>

definition code_points :: "string \<Rightarrow> nat" where
  "code_points s = length (filter (\<lambda>c. \<not> (128 \<le> (of_char c :: nat) \<and> (of_char c :: nat) < 192)) s)"

text \<open>
  \<open>len(v)\<close>: the number of code points of a string, of elements of a list, of keys of a
  dictionary; \<open>TypeError\<close> on every other value, with the name of its type.
\<close>

definition len :: "json \<Rightarrow> exn + nat" where
  "len v =
     (case v of
        JStr s \<Rightarrow> Inr (code_points s)
      | JList xs \<Rightarrow> Inr (length xs)
      | JDict d \<Rightarrow> Inr (length d)
      | _ \<Rightarrow>
          Inl (PyError ''TypeError''
                 (''object of type '' @ [CHR 0x27] @ type_name v @ [CHR 0x27] @ '' has no len()'')))"

subsection \<open>Decimal text of integers\<close>

definition digit_char :: "nat \<Rightarrow> char" where
  "digit_char d = ''0123456789'' ! d"

fun str_nat :: "nat \<Rightarrow> string" where
  "str_nat n = (if n < 10 then [digit_char n] else str_nat (n div 10) @ [digit_char (n mod 10)])"

declare str_nat.simps [simp del]

text \<open>\<open>str(i)\<close> for a Python integer.\<close>

definition str_int :: "int \<Rightarrow> string" where
  "str_int i = (if i < 0 then CHR ''-'' # str_nat (nat (- i)) else str_nat (nat i))"

definition digit_val :: "char \<Rightarrow> nat option" where
  "digit_val c =
     (let code = (of_char c :: nat)
      in if 48 \<le> code \<and> code \<le> 57 then Some (code - 48) else None)"

text \<open>Reading digits left to right, with the number read so far.\<close>

fun parse_digits :: "nat \<Rightarrow> string \<Rightarrow> nat option" where
  "parse_digits acc [] = Some acc"
| "parse_digits acc (c # cs) =
     (case digit_val c of None \<Rightarrow> None | Some d \<Rightarrow> parse_digits (10 * acc + d) cs)"

definition parse_nat :: "string \<Rightarrow> nat option" where
  "parse_nat s = (if s = [] then None else parse_digits 0 s)"

text \<open>
  \<open>int(s)\<close> on the plain decimal form that \<open>str\<close> produces: an optional minus sign and
  at least one digit. Every other text is refused (Python's \<open>int\<close> also accepts
  surrounding blanks, a plus sign and underscores between digits, which no text in this
  program has).
\<close>

definition int_of_str :: "string \<Rightarrow> int option" where
  "int_of_str s =
     (case s of
        [] \<Rightarrow> None
      | c # cs \<Rightarrow>
          if c = CHR ''-'' then map_option (\<lambda>n. - int n) (parse_nat cs)
          else map_option int (parse_nat s))"

section \<open>Configuration, the network and the state of the world\<close>

text \<open>
  Modelled from the spec: the settings of \<open>src/config.py\<close>, which is not among the
  sources. The configuration surface of the spec, loaded once at process start and
  immutable thereafter: each setting is a field of a record, and its value is not fixed
  here.
\<close>

record settings =
  jwt_secret_key :: string
  jwt_algorithm :: string
  mcp_audience :: string
  fastapi_base_url :: string
  fastapi_api_key :: string
  mcp_server_name :: string
  mcp_server_version :: string
  log_level :: string

record http_request =
  http_method :: string
  url :: string
  headers :: "(string \<times> string) list"
  json_body :: "json option"
  timeout :: nat

text \<open>
  A response: its status line, and what \<open>response.json()\<close> gives, the parsed body or the
  decoder's message when the body is not JSON.
\<close>

record http_response =
  status_code :: nat
  reason_phrase :: string
  json_content :: "string + json"

text \<open>
  The JWT library and the network are outside the repository: the signing primitive of
  HS256 and the transport (what the network and the backend do with a request) are
  functions of the environment, and every theorem holds for all of them. The transport
  answers a request with a response, or raises: the class name of the exception and its
  text (a refused connection, a timeout, ...).
\<close>

record env =
  config :: settings
  hmac :: "string \<Rightarrow> string \<Rightarrow> string"
  transport :: "http_request \<Rightarrow> (string \<times> string) + http_response"

text \<open>
  What changes while the program runs: the clock (seconds since the epoch), the methods
  of the backend client that were entered, and the requests handed to the transport.
\<close>

record world =
  clock :: int
  client_calls :: "string list"
  sent :: "http_request list"

section \<open>The JWT library\<close>

text \<open>
  A stand-in for the JWT library the program calls (\<open>jwt.encode\<close>, \<open>jwt.decode\<close>): the
  payload holds the three claims the program writes, \<open>sub\<close>, \<open>type\<close> and \<open>exp\<close>. A
  token is the text \<open>sub.type.exp.signature\<close>, the signature being the HS256 primitive of
  the environment applied to the key and to the text before it. The library's JSON and
  base64 layers are not modelled. Decoding reads the three claims, then checks the
  signature, then the expiry: a token is expired from the instant \<open>exp\<close> on.
\<close>

record jwt_payload =
  claim_sub :: string
  claim_type :: string
  claim_exp :: int

datatype jwt_error = DecodeError | InvalidSignatureError | ExpiredSignatureError

definition signing_input :: "jwt_payload \<Rightarrow> string" where
  "signing_input p = claim_sub p @ ''.'' @ claim_type p @ ''.'' @ str_int (claim_exp p)"

definition jwt_encode :: "env \<Rightarrow> jwt_payload \<Rightarrow> string \<Rightarrow> string" where
  "jwt_encode e p secret = signing_input p @ ''.'' @ hmac e secret (signing_input p)"

text \<open>The text before the first dot and the text after it; nothing when there is no dot.\<close>

definition split_dot :: "string \<Rightarrow> (string \<times> string) option" where
  "split_dot s =
     (if CHR ''.'' \<in> set s
      then Some (takeWhile (\<lambda>c. c \<noteq> CHR ''.'') s, tl (dropWhile (\<lambda>c. c \<noteq> CHR ''.'') s))
      else None)"

definition jwt_decode :: "env \<Rightarrow> string \<Rightarrow> string \<Rightarrow> int \<Rightarrow> jwt_error + jwt_payload" where
  "jwt_decode e token secret now =
     (case split_dot token of
        None \<Rightarrow> Inl DecodeError
      | Some (s1, r1) \<Rightarrow>
     (case split_dot r1 of
        None \<Rightarrow> Inl DecodeError
      | Some (s2, r2) \<Rightarrow>
     (case split_dot r2 of
        None \<Rightarrow> Inl DecodeError
      | Some (s3, signature) \<Rightarrow>
     (case int_of_str s3 of
        None \<Rightarrow> Inl DecodeError
      | Some expiry \<Rightarrow>
          if signature \<noteq> hmac e secret (s1 @ ''.'' @ s2 @ ''.'' @ s3)
          then Inl InvalidSignatureError
          else if expiry \<le> now then Inl ExpiredSignatureError
          else Inr \<lparr>claim_sub = s1, claim_type = s2, claim_exp = expiry\<rparr>))))"

section \<open>The backend client (src/client.py)\<close>

text \<open>\<open>str(exc)\<close>.\<close>

fun str_exn :: "exn \<Rightarrow> string" where
  "str_exn (HTTPException s d) = str_nat s @ '': '' @ d"
| "str_exn (HTTPStatusError s m) = m"
| "str_exn (PyError c m) = m"

text \<open>\<open>client.get\<close> / \<open>client.post\<close>: the request is recorded, then answered.\<close>

definition send :: "env \<Rightarrow> http_request \<Rightarrow> world \<Rightarrow> (exn + http_response) \<times> world" where
  "send e req w =
     (case transport e req of
        Inl (cls, msg) \<Rightarrow> (Inl (PyError cls msg), w\<lparr>sent := sent w @ [req]\<rparr>)
      | Inr resp \<Rightarrow> (Inr resp, w\<lparr>sent := sent w @ [req]\<rparr>))"

text \<open>Entering a method of the client is recorded, as a mock of the client would count it.\<close>

definition enter :: "string \<Rightarrow> world \<Rightarrow> world" where
  "enter name w = w\<lparr>client_calls := client_calls w @ [name]\<rparr>"

text \<open>
  \<open>response.raise_for_status()\<close> of the HTTP library: a status from 200 to 299 passes,
  every other one raises \<open>HTTPStatusError\<close>, whose message names the class of the status,
  the status line and the URL and, on a second line, a page about the status. (The
  variant of the message for a redirect with a location is not modelled: a response
  has no headers here.)
\<close>

definition error_type :: "nat \<Rightarrow> string" where
  "error_type status =
     (if status div 100 = 1 then ''Informational response''
      else if status div 100 = 3 then ''Redirect response''
      else if status div 100 = 4 then ''Client error''
      else if status div 100 = 5 then ''Server error''
      else ''Invalid status code'')"

definition raise_for_status :: "http_request \<Rightarrow> http_response \<Rightarrow> exn + http_response" where
  "raise_for_status req response =
     (if 200 \<le> status_code response \<and> status_code response \<le> 299 then Inr response
      else Inl (HTTPStatusError (status_code response)
             (error_type (status_code response) @ '' '' @ [CHR 0x27]
              @ str_nat (status_code response) @ '' '' @ reason_phrase response @ [CHR 0x27]
              @ '' for url '' @ [CHR 0x27] @ url req @ [CHR 0x27] @ [CHR 0x0A]
              @ ''For more information check: ''
              @ ''https://developer.mozilla.org/en-US/docs/Web/HTTP/Status/''
              @ str_nat (status_code response))))"

text \<open>\<open>response.json()\<close>: the parsed body, or the decoder's error.\<close>

definition response_json :: "http_response \<Rightarrow> exn + json" where
  "response_json response =
     (case json_content response of
        Inl msg \<Rightarrow> Inl (PyError ''JSONDecodeError'' msg)
      | Inr v \<Rightarrow> Inr v)"

text \<open>
  \<open>FastAPIClient._get_user_token\<close>: the user name is the text of the user identifier; the
  token carries it as \<open>sub\<close>, the type \<open>access\<close> and an expiry 30 minutes from now, signed
  with the key written in the method.
\<close>

definition get_user_token :: "env \<Rightarrow> int \<Rightarrow> int \<Rightarrow> string" where
  "get_user_token e now user_id =
     jwt_encode e \<lparr>claim_sub = str_int user_id, claim_type = ''access'',
                   claim_exp = now + 30 * 60\<rparr>
       ''349878uoti34h80943iotrhf-83490ewofridsh3t4iner''"

text \<open>The headers every data request carries.\<close>

definition auth_headers :: "env \<Rightarrow> string \<Rightarrow> (string \<times> string) list" where
  "auth_headers e token =
     [(''Content-Type'', ''application/json''),
      (''X-API-Key'', fastapi_api_key (config e)),
      (''Authorization'', ''Bearer '' @ token)]"

text \<open>\<open>FastAPIClient.get_tasks\<close>.\<close>

definition FastAPIClient_get_tasks :: "env \<Rightarrow> int \<Rightarrow> world \<Rightarrow> (exn + json) \<times> world" where
  "FastAPIClient_get_tasks e user_id w0 =
     (let w = enter ''get_tasks'' w0;
          token = get_user_token e (clock w) user_id;
          req = \<lparr>http_method = ''GET'', url = fastapi_base_url (config e) @ ''/tasks/'',
                 headers = auth_headers e token, json_body = None, timeout = 30\<rparr>
      in case send e req w of
           (Inl ex, w') \<Rightarrow> (Inl ex, w')
         | (Inr response, w') \<Rightarrow>
             (case raise_for_status req response of
                Inl ex \<Rightarrow> (Inl ex, w')
              | Inr r \<Rightarrow> (response_json r, w')))"

text \<open>\<open>FastAPIClient.get_categories\<close>.\<close>

definition FastAPIClient_get_categories :: "env \<Rightarrow> int \<Rightarrow> world \<Rightarrow> (exn + json) \<times> world" where
  "FastAPIClient_get_categories e user_id w0 =
     (let w = enter ''get_categories'' w0;
          token = get_user_token e (clock w) user_id;
          req = \<lparr>http_method = ''GET'', url = fastapi_base_url (config e) @ ''/categories/'',
                 headers = auth_headers e token, json_body = None, timeout = 30\<rparr>
      in case send e req w of
           (Inl ex, w') \<Rightarrow> (Inl ex, w')
         | (Inr response, w') \<Rightarrow>
             (case raise_for_status req response of
                Inl ex \<Rightarrow> (Inl ex, w')
              | Inr r \<Rightarrow> (response_json r, w')))"

text \<open>An argument with a default: \<open>None\<close> when the caller leaves it out.\<close>

definition default_arg :: "'a \<Rightarrow> 'a option \<Rightarrow> 'a" where
  "default_arg d a = (case a of None \<Rightarrow> d | Some v \<Rightarrow> v)"

text \<open>
  \<open>FastAPIClient.create_note\<close>: the note is posted; the backend's answer gives the
  identifier, every other field of the result is the argument that was sent.
\<close>

definition FastAPIClient_create_note ::
  "env \<Rightarrow> int \<Rightarrow> string \<Rightarrow> string option \<Rightarrow> string option \<Rightarrow> string option \<Rightarrow> world
   \<Rightarrow> (exn + json) \<times> world" where
  "FastAPIClient_create_note e user_id title px py col w0 =
     (let position_x = default_arg ''0'' px;
          position_y = default_arg ''0'' py;
          color = default_arg ''#FFEB3B'' col;
          w = enter ''create_note'' w0;
          token = get_user_token e (clock w) user_id;
          req = \<lparr>http_method = ''POST'', url = fastapi_base_url (config e) @ ''/notes'',
                 headers = auth_headers e token,
                 json_body = Some (JDict [(''user_id'', JInt user_id),
                                          (''title'', JStr title),
                                          (''position_x'', JStr position_x),
                                          (''position_y'', JStr position_y),
                                          (''color'', JStr color)]),
                 timeout = 30\<rparr>
      in case send e req w of
           (Inl ex, w') \<Rightarrow> (Inl ex, w')
         | (Inr response, w') \<Rightarrow>
             (case raise_for_status req response of
                Inl ex \<Rightarrow> (Inl ex, w')
              | Inr r \<Rightarrow>
                  (case response_json r of
                     Inl ex \<Rightarrow> (Inl ex, w')
                   | Inr result \<Rightarrow>
                       (case subscript result ''note_id'' of
                          Inl ex \<Rightarrow> (Inl ex, w')
                        | Inr note_id \<Rightarrow>
                            (Inr (JDict [(''note_id'', note_id),
                                         (''title'', JStr title),
                                         (''color'', JStr color),
                                         (''position_x'', JStr position_x),
                                         (''position_y'', JStr position_y),
                                         (''message'', JStr ''[OK] Nota creata con successo'')]),
                             w')))))"

text \<open>
  \<open>FastAPIClient.health_check\<close>: one GET of \<open>/health\<close> with a timeout of 10 seconds and
  no headers, inside \<open>try\<close>; any response gives \<open>healthy\<close> with its status code, any
  exception gives \<open>unhealthy\<close> with its text.
\<close>

definition health_request :: "env \<Rightarrow> http_request" where
  "health_request e =
     \<lparr>http_method = ''GET'', url = fastapi_base_url (config e) @ ''/health'',
      headers = [], json_body = None, timeout = 10\<rparr>"

definition FastAPIClient_health_check :: "env \<Rightarrow> world \<Rightarrow> (exn + json) \<times> world" where
  "FastAPIClient_health_check e w0 =
     (case send e (health_request e) (enter ''health_check'' w0) of
        (Inr response, w') \<Rightarrow>
          (Inr (JDict [(''status'', JStr ''healthy''),
                       (''code'', JInt (int (status_code response)))]), w')
      | (Inl ex, w') \<Rightarrow>
          (Inr (JDict [(''status'', JStr ''unhealthy''),
                       (''error'', JStr (str_exn ex))]), w'))"

section \<open>Authentication (src/auth.py)\<close>

text \<open>
  Modelled from the spec: the payload that \<open>create_test_token\<close> of \<open>src/auth.py\<close> signs
  (the file is not among the sources): the subject identifier, the fixed type tag and
  the expiry instant \<open>now + ttl\<close>. As the tests call it, the time to live is a number of
  minutes; the subject is written as the client's own token writes it, the text of the
  user identifier.
\<close>

definition test_payload :: "int \<Rightarrow> int \<Rightarrow> int \<Rightarrow> jwt_payload" where
  "test_payload now user_id expires_minutes =
     \<lparr>claim_sub = str_int user_id, claim_type = ''access'',
      claim_exp = now + 60 * expires_minutes\<rparr>"

text \<open>
  Modelled from the spec: \<open>create_test_token\<close> of \<open>src/auth.py\<close>, which is not among the
  sources. The spec's \<open>issue(subject, ttl)\<close>: the credential is that payload, signed with
  the signing secret of the configuration.
\<close>

definition create_test_token :: "env \<Rightarrow> int \<Rightarrow> int \<Rightarrow> int \<Rightarrow> string" where
  "create_test_token e now user_id expires_minutes =
     jwt_encode e (test_payload now user_id expires_minutes) (jwt_secret_key (config e))"

text \<open>
  Modelled from the spec: \<open>verify_jwt_token\<close> of \<open>src/auth.py\<close>, which is not among the
  sources. The spec's \<open>verify(header_value)\<close>: it accepts a value of the form
  \<open>Bearer <token>\<close> and fails with \<open>Unauthenticated\<close>, status 401, when the header is
  absent, has no scheme prefix, carries a token whose signature does not validate, or
  one whose expiry instant has passed; on success it returns the subject as an integer.
  The details of the first and of the expired case are the ones the tests read.
\<close>

definition verify_jwt_token :: "env \<Rightarrow> int \<Rightarrow> string option \<Rightarrow> exn + int" where
  "verify_jwt_token e now authorization =
     (case authorization of
        None \<Rightarrow> Inl (HTTPException 401 ''Missing Authorization header'')
      | Some h \<Rightarrow>
          if \<not> prefix ''Bearer '' h
          then Inl (HTTPException 401 ''Invalid Authorization header format'')
          else
            (case jwt_decode e (drop 7 h) (jwt_secret_key (config e)) now of
               Inl ExpiredSignatureError \<Rightarrow> Inl (HTTPException 401 ''Token has expired'')
             | Inl _ \<Rightarrow> Inl (HTTPException 401 ''Invalid token'')
             | Inr payload \<Rightarrow>
                 (case int_of_str (claim_sub payload) of
                    None \<Rightarrow> Inl (HTTPException 401 ''Invalid token'')
                  | Some user_id \<Rightarrow> Inr user_id)))"

section \<open>Formatting rules (src/formatters.py)\<close>

text \<open>
  \<open>src/formatters.py\<close> is not among the sources: this section is modelled from the spec
  (section 4.3), from the values the tests of the formatters read and from the answer
  that the documentation of \<open>get_tasks\<close> in \<open>src/server.py\<close> shows. A raw task is the
  dictionary the backend sends.
\<close>

type_synonym task = "(string \<times> json) list"

subsection \<open>Dates\<close>

text \<open>
  Modelled from the spec: the calendar behind the date formatting (leap years, lengths
  of months, day of the week), and the Italian names of the days and months.
\<close>

definition leap_year :: "nat \<Rightarrow> bool" where
  "leap_year y = (y mod 4 = 0 \<and> (y mod 100 \<noteq> 0 \<or> y mod 400 = 0))"

definition days_in_month :: "nat \<Rightarrow> nat \<Rightarrow> nat" where
  "days_in_month y m =
     (if m = 2 then (if leap_year y then 29 else 28)
      else if m = 4 \<or> m = 6 \<or> m = 9 \<or> m = 11 then 30 else 31)"

text \<open>The day of the week of a date of the Gregorian calendar, Monday being 0.\<close>

definition weekday :: "nat \<Rightarrow> nat \<Rightarrow> nat \<Rightarrow> nat" where
  "weekday y m d =
     (let y' = (if m < 3 then y - 1 else y);
          t = [0, 3, 2, 5, 0, 3, 5, 1, 4, 6, 2, 4] ! (m - 1)
      in (y' + y' div 4 - y' div 100 + y' div 400 + t + d + 6) mod 7)"

definition WEEKDAYS :: "string list" where
  "WEEKDAYS =
     [''Luned'' @ [CHR 0xC3, CHR 0xAC], ''Marted'' @ [CHR 0xC3, CHR 0xAC],
      ''Mercoled'' @ [CHR 0xC3, CHR 0xAC], ''Gioved'' @ [CHR 0xC3, CHR 0xAC],
      ''Venerd'' @ [CHR 0xC3, CHR 0xAC], ''Sabato'', ''Domenica'']"

definition MONTHS :: "string list" where
  "MONTHS =
     [''gennaio'', ''febbraio'', ''marzo'', ''aprile'', ''maggio'', ''giugno'', ''luglio'',
      ''agosto'', ''settembre'', ''ottobre'', ''novembre'', ''dicembre'']"

text \<open>
  Modelled from the spec: reading an ISO-8601 timestamp: \<open>YYYY-MM-DD\<close>, then, when the text goes on, a \<open>T\<close> or a
  blank and \<open>HH:MM\<close>. What follows the minutes (seconds, offset) is not read. The result
  is year, month, day, hour and minute, or nothing when the text is not of that form.
\<close>

definition parse_iso :: "string \<Rightarrow> (nat \<times> nat \<times> nat \<times> nat \<times> nat) option" where
  "parse_iso s =
     (if 10 \<le> length s \<and> s ! 4 = CHR ''-'' \<and> s ! 7 = CHR ''-''
      then
        (case (parse_nat (take 4 s), parse_nat (take 2 (drop 5 s)), parse_nat (take 2 (drop 8 s))) of
           (Some y, Some m, Some d) \<Rightarrow>
             if 1 \<le> y \<and> 1 \<le> m \<and> m \<le> 12 \<and> 1 \<le> d \<and> d \<le> days_in_month y m
             then
               if length s = 10 then Some (y, m, d, 0, 0)
               else if 16 \<le> length s \<and> (s ! 10 = CHR ''T'' \<or> s ! 10 = CHR '' '')
                       \<and> s ! 13 = CHR '':''
               then
                 (case (parse_nat (take 2 (drop 11 s)), parse_nat (take 2 (drop 14 s))) of
                    (Some h, Some mi) \<Rightarrow>
                      if h < 24 \<and> mi < 60 then Some (y, m, d, h, mi) else None
                  | _ \<Rightarrow> None)
               else None
             else None
         | _ \<Rightarrow> None)
      else None)"

definition pad2 :: "nat \<Rightarrow> string" where
  "pad2 n = (if n < 10 then CHR ''0'' # str_nat n else str_nat n)"

text \<open>
  Modelled from the spec: \<open>format_date_for_mobile\<close> of \<open>src/formatters.py\<close>, which is not
  among the sources. An ISO-8601 timestamp maps to the localized text
  \<open>Weekday D Month, HH:MM\<close> with the Italian names; the empty text maps to the empty
  text; a malformed text does not fail, it falls back to the raw text.
\<close>

definition format_date_for_mobile :: "string \<Rightarrow> string" where
  "format_date_for_mobile date_str =
     (if date_str = [] then []
      else
        (case parse_iso date_str of
           None \<Rightarrow> date_str
         | Some (y, m, d, h, mi) \<Rightarrow>
             WEEKDAYS ! weekday y m d @ '' '' @ str_nat d @ '' '' @ MONTHS ! (m - 1)
             @ '', '' @ pad2 h @ '':'' @ pad2 mi))"

subsection \<open>Priorities and categories\<close>

text \<open>
  Modelled from the spec: \<open>get_priority_emoji\<close> of \<open>src/formatters.py\<close>, which is not
  among the sources. The tests give the high-voltage sign (U+26A1) for \<open>Alta\<close> and the
  empty text for \<open>Media\<close> and \<open>Bassa\<close>; an unrecognized level maps to the empty text.
\<close>

definition get_priority_emoji :: "string \<Rightarrow> string" where
  "get_priority_emoji priority =
     (if priority = ''Alta'' then [CHR 0xE2, CHR 0x9A, CHR 0xA1] else [])"

text \<open>
  Modelled from the spec: \<open>get_priority_color\<close> of \<open>src/formatters.py\<close>, which is not
  among the sources. The three colors are the ones the tests read; the spec asks for a
  defined default for every other level and does not name it: the model takes gray.
\<close>

definition get_priority_color :: "string \<Rightarrow> string" where
  "get_priority_color priority =
     (if priority = ''Alta'' then ''#EF4444''
      else if priority = ''Media'' then ''#F59E0B''
      else if priority = ''Bassa'' then ''#10B981''
      else ''#6B7280'')"

text \<open>
  Modelled from the spec: the lookup table of the known categories, of which the tests
  give these two entries, and the palette of the fallback, which the spec does not list:
  the model takes the colors the tests name.
\<close>

definition CATEGORY_COLORS :: "(string \<times> string) list" where
  "CATEGORY_COLORS = [(''Lavoro'', ''#3B82F6''), (''Personale'', ''#8B5CF6'')]"

definition PALETTE :: "string list" where
  "PALETTE = [''#3B82F6'', ''#8B5CF6'', ''#EF4444'', ''#F59E0B'', ''#10B981'']"

text \<open>
  Modelled from the spec: the hash of the fallback, "a pure hash-to-palette function, not
  randomness": the sum of the codes of the name's characters, a function of the name
  alone.
\<close>

definition name_hash :: "string \<Rightarrow> nat" where
  "name_hash name = sum_list (map of_char name)"

text \<open>
  Modelled from the spec: \<open>get_category_color\<close> of \<open>src/formatters.py\<close>, which is not
  among the sources. A known category has the color of the lookup table; for an unknown
  name the color is derived from the name alone, the hash of the name choosing an entry
  of the palette.
\<close>

definition get_category_color :: "string \<Rightarrow> string" where
  "get_category_color category_name =
     (case map_of CATEGORY_COLORS category_name of
        Some c \<Rightarrow> c
      | None \<Rightarrow> PALETTE ! (name_hash category_name mod length PALETTE))"

subsection \<open>The task list for the UI\<close>

text \<open>
  Modelled from the spec: the text of a field of a raw task, empty when the field is
  missing or not a string.
\<close>

definition str_field :: "task \<Rightarrow> string \<Rightarrow> string" where
  "str_field t k = (case dict_get t k of JStr s \<Rightarrow> s | _ \<Rightarrow> [])"

text \<open>
  Modelled from the spec: the two statuses the summary counts. The pending one is the tests' \<open>In sospeso\<close>; the
  completed one is not written in the spec or the tests, the model takes \<open>Completato\<close>.
\<close>

definition PENDING :: string where
  "PENDING = ''In sospeso''"

definition COMPLETED :: string where
  "COMPLETED = ''Completato''"

text \<open>
  Modelled from the spec: the action descriptors of a task, of a fixed shape: a label
  and an enabled flag for complete, edit and delete; a completed task disables
  \<open>complete\<close>. The labels are the ones of the documented answer: the pencil (U+270F,
  U+FE0F) before \<open>Modifica\<close> and the wastebasket (U+1F5D1, U+FE0F) before \<open>Elimina\<close>.
\<close>

definition task_actions :: "task \<Rightarrow> json" where
  "task_actions t =
     JDict
       [(''complete'', JDict [(''label'', JStr ''[OK] Completa''),
                              (''enabled'', JBool (dict_get t ''status'' \<noteq> JStr COMPLETED))]),
        (''edit'',
         JDict [(''label'', JStr ([CHR 0xE2, CHR 0x9C, CHR 0x8F, CHR 0xEF, CHR 0xB8, CHR 0x8F]
                                  @ '' Modifica'')),
                (''enabled'', JBool True)]),
        (''delete'',
         JDict [(''label'', JStr ([CHR 0xF0, CHR 0x9F, CHR 0x97, CHR 0x91, CHR 0xEF, CHR 0xB8,
                                   CHR 0x8F] @ '' Elimina'')),
                (''enabled'', JBool True)])]"

text \<open>
  Modelled from the spec: the UI view of one task: the fields of the raw task, and the
  localized date, the emoji and color of the priority, the color of the category and
  the action descriptors added to them.
\<close>

definition format_task :: "task \<Rightarrow> json" where
  "format_task t =
     JDict
       [(''id'', dict_get t ''task_id''),
        (''title'', dict_get t ''title''),
        (''description'', dict_get t ''description''),
        (''endTime'', dict_get t ''end_time''),
        (''endTimeFormatted'', JStr (format_date_for_mobile (str_field t ''end_time''))),
        (''category'', dict_get t ''category''),
        (''categoryColor'', JStr (get_category_color (str_field t ''category''))),
        (''priority'', dict_get t ''priority''),
        (''priorityEmoji'', JStr (get_priority_emoji (str_field t ''priority''))),
        (''priorityColor'', JStr (get_priority_color (str_field t ''priority''))),
        (''status'', dict_get t ''status''),
        (''actions'', task_actions t)]"

text \<open>Modelled from the spec: how many tasks have the given text in the given field.\<close>

definition count_field :: "string \<Rightarrow> string \<Rightarrow> task list \<Rightarrow> nat" where
  "count_field k v tasks = length (filter (\<lambda>t. dict_get t k = JStr v) tasks)"

text \<open>
  Modelled from the spec: the summary statistics: the total, the pending, the completed
  and the high-priority count of the input list.
\<close>

definition task_summary :: "task list \<Rightarrow> (string \<times> json) list" where
  "task_summary tasks =
     [(''total'', JInt (int (length tasks))),
      (''pending'', JInt (int (count_field ''status'' PENDING tasks))),
      (''completed'', JInt (int (count_field ''status'' COMPLETED tasks))),
      (''high_priority'', JInt (int (count_field ''priority'' ''Alta'' tasks)))]"

text \<open>
  Modelled from the spec: the voice summary, one sentence from the counts in the
  template of the tool's documentation, and a "no tasks" sentence when the total is 0.
\<close>

definition voice_summary :: "task list \<Rightarrow> string" where
  "voice_summary tasks =
     (if tasks = [] then ''Non hai nessun task.''
      else ''Hai '' @ str_nat (length tasks) @ '' task, di cui ''
           @ str_nat (count_field ''priority'' ''Alta'' tasks)
           @ '' ad alta priorit'' @ [CHR 0xC3, CHR 0xA0] @ ''. ''
           @ str_nat (count_field ''status'' PENDING tasks) @ '' sono in sospeso e ''
           @ str_nat (count_field ''status'' COMPLETED tasks) @ '' completati.'')"

text \<open>
  Modelled from the spec: the column descriptors, a fixed list of name, label and type
  that does not depend on the input.
\<close>

definition COLUMNS :: json where
  "COLUMNS =
     JList
       [JDict [(''name'', JStr ''title''), (''label'', JStr ''Titolo''), (''type'', JStr ''text'')],
        JDict [(''name'', JStr ''endTimeFormatted''), (''label'', JStr ''Scadenza''),
               (''type'', JStr ''date'')],
        JDict [(''name'', JStr ''category''), (''label'', JStr ''Categoria''),
               (''type'', JStr ''badge'')],
        JDict [(''name'', JStr ''priority''), (''label'', JStr (''Priorit'' @ [CHR 0xC3, CHR 0xA0])),
               (''type'', JStr ''badge'')],
        JDict [(''name'', JStr ''status''), (''label'', JStr ''Stato''), (''type'', JStr ''text'')]]"

text \<open>
  Modelled from the spec: \<open>format_tasks_for_ui\<close> of \<open>src/formatters.py\<close>, which is not
  among the sources. From the raw task list it builds the answer the documentation of
  \<open>get_tasks\<close> shows: the type and version, the columns, the UI view of every task, the
  summary, the voice summary and the UI hints.
\<close>

definition format_tasks_for_ui :: "task list \<Rightarrow> json" where
  "format_tasks_for_ui tasks =
     JDict
       [(''type'', JStr ''task_list''),
        (''version'', JStr ''1.0''),
        (''columns'', COLUMNS),
        (''tasks'', JList (map format_task tasks)),
        (''summary'', JDict (task_summary tasks)),
        (''voice_summary'', JStr (voice_summary tasks)),
        (''ui_hints'', JDict [(''display_mode'', JStr ''list''),
                              (''enable_swipe_actions'', JBool True),
                              (''enable_pull_to_refresh'', JBool True),
                              (''group_by'', JStr ''category'')])]"

text \<open>
  The body the backend sent, read as a list of tasks: a list of dictionaries. On any
  other body the formatter cannot read a task and the call fails.
\<close>

fun task_dicts :: "json list \<Rightarrow> task list option" where
  "task_dicts [] = Some []"
| "task_dicts (JDict d # xs) = map_option ((#) d) (task_dicts xs)"
| "task_dicts (_ # xs) = None"

definition as_tasks :: "json \<Rightarrow> exn + task list" where
  "as_tasks v =
     (case v of
        JList xs \<Rightarrow>
          (case task_dicts xs of
             None \<Rightarrow> Inl (PyError ''AttributeError'' ''object has no attribute get'')
           | Some ts \<Rightarrow> Inr ts)
      | _ \<Rightarrow> Inl (PyError ''AttributeError'' ''object has no attribute get''))"

section \<open>The tools (src/server.py)\<close>

text \<open>
  \<open>get_tasks\<close>: the credential is verified, then the client fetches the tasks of the user,
  then the formatter builds the answer.
\<close>

definition get_tasks :: "env \<Rightarrow> string option \<Rightarrow> world \<Rightarrow> (exn + json) \<times> world" where
  "get_tasks e authorization w =
     (case verify_jwt_token e (clock w) authorization of
        Inl ex \<Rightarrow> (Inl ex, w)
      | Inr user_id \<Rightarrow>
          (case FastAPIClient_get_tasks e user_id w of
             (Inl ex, w') \<Rightarrow> (Inl ex, w')
           | (Inr tasks, w') \<Rightarrow>
               (case as_tasks tasks of
                  Inl ex \<Rightarrow> (Inl ex, w')
                | Inr ts \<Rightarrow> (Inr (format_tasks_for_ui ts), w'))))"

text \<open>\<open>get_categories\<close>: the categories as the backend sent them, and their number.\<close>

definition get_categories :: "env \<Rightarrow> string option \<Rightarrow> world \<Rightarrow> (exn + json) \<times> world" where
  "get_categories e authorization w =
     (case verify_jwt_token e (clock w) authorization of
        Inl ex \<Rightarrow> (Inl ex, w)
      | Inr user_id \<Rightarrow>
          (case FastAPIClient_get_categories e user_id w of
             (Inl ex, w') \<Rightarrow> (Inl ex, w')
           | (Inr categories, w') \<Rightarrow>
               (case len categories of
                  Inl ex \<Rightarrow> (Inl ex, w')
                | Inr n \<Rightarrow>
                    (Inr (JDict [(''categories'', categories), (''total'', JInt (int n))]), w'))))"

text \<open>
  \<open>create_note\<close>: the position and the color have defaults; after the credential is
  verified all four values are passed on to the client.
\<close>

definition create_note ::
  "env \<Rightarrow> string option \<Rightarrow> string \<Rightarrow> string option \<Rightarrow> string option \<Rightarrow> string option \<Rightarrow> world
   \<Rightarrow> (exn + json) \<times> world" where
  "create_note e authorization title px py col w =
     (let position_x = default_arg ''0'' px;
          position_y = default_arg ''0'' py;
          color = default_arg ''#FFEB3B'' col
      in case verify_jwt_token e (clock w) authorization of
           Inl ex \<Rightarrow> (Inl ex, w)
         | Inr user_id \<Rightarrow>
             FastAPIClient_create_note e user_id title
               (Some position_x) (Some position_y) (Some color) w)"

text \<open>
  \<open>health_check\<close>: no credential; the status the client reports for the backend, with
  \<open>unknown\<close> when the report has none.
\<close>

definition health_check :: "env \<Rightarrow> world \<Rightarrow> (exn + json) \<times> world" where
  "health_check e w =
     (case FastAPIClient_health_check e w of
        (Inl ex, w') \<Rightarrow> (Inl ex, w')
      | (Inr fastapi_health, w') \<Rightarrow>
          (case fastapi_health of
             JDict d \<Rightarrow>
               (Inr (JDict [(''mcp_server'', JStr ''healthy''),
                            (''fastapi_server'', dict_get_default d ''status'' (JStr ''unknown'')),
                            (''fastapi_url'', JStr (fastapi_base_url (config e))),
                            (''fastapi_details'', fastapi_health)]), w')
           | _ \<Rightarrow> (Inl (PyError ''AttributeError'' ''object has no attribute get''), w')))"

section \<open>The HTTP adapter (src/http_server.py)\<close>

text \<open>The body of a note request, with the defaults of its declaration.\<close>

record create_note_request =
  req_title :: string
  req_position_x :: string
  req_position_y :: string
  req_color :: string

definition CreateNoteRequest ::
  "string \<Rightarrow> string option \<Rightarrow> string option \<Rightarrow> string option \<Rightarrow> create_note_request" where
  "CreateNoteRequest title px py col =
     \<lparr>req_title = title, req_position_x = default_arg ''0'' px,
      req_position_y = default_arg ''0'' py, req_color = default_arg ''#FFEB3B'' col\<rparr>"

record json_response =
  response_status :: nat
  response_content :: json

text \<open>The uniform envelope of an error response: a status, and a detail and an error code.\<close>

definition error_envelope :: "nat \<Rightarrow> string \<Rightarrow> string \<Rightarrow> json_response" where
  "error_envelope status detail code =
     \<lparr>response_status = status,
      response_content = JDict [(''detail'', JStr detail), (''error_code'', JStr code)]\<rparr>"

text \<open>
  \<open>http_exception_handler\<close>: the status of the exception, its detail and a code. (The
  headers of the exception, which the handler copies, are not modelled.)
\<close>

definition http_exception_handler :: "nat \<Rightarrow> string \<Rightarrow> json_response" where
  "http_exception_handler status detail =
     \<lparr>response_status = status,
      response_content = JDict [(''detail'', JStr detail),
                                (''error_code'', JStr (''HTTP_'' @ str_nat status))]\<rparr>"

text \<open>\<open>general_exception_handler\<close>: status 500, whatever the exception.\<close>

definition general_exception_handler :: "exn \<Rightarrow> json_response" where
  "general_exception_handler exc =
     \<lparr>response_status = 500,
      response_content = JDict [(''detail'', JStr (''Internal server error: '' @ str_exn exc)),
                                (''error_code'', JStr ''INTERNAL_ERROR'')]\<rparr>"

text \<open>
  What the framework does with the outcome of a route: the result is sent with status
  200; an \<open>HTTPException\<close> goes to its handler, every other exception to the general one.
\<close>

definition respond :: "exn + json \<Rightarrow> json_response" where
  "respond r =
     (case r of
        Inr v \<Rightarrow> \<lparr>response_status = 200, response_content = v\<rparr>
      | Inl (HTTPException status detail) \<Rightarrow> http_exception_handler status detail
      | Inl exc \<Rightarrow> general_exception_handler exc)"

text \<open>The three protected routes and the health route.\<close>

definition http_get_tasks :: "env \<Rightarrow> string option \<Rightarrow> world \<Rightarrow> json_response \<times> world" where
  "http_get_tasks e authorization w =
     (case get_tasks e authorization w of (r, w') \<Rightarrow> (respond r, w'))"

definition http_get_categories :: "env \<Rightarrow> string option \<Rightarrow> world \<Rightarrow> json_response \<times> world" where
  "http_get_categories e authorization w =
     (case get_categories e authorization w of (r, w') \<Rightarrow> (respond r, w'))"

definition http_create_note ::
  "env \<Rightarrow> create_note_request \<Rightarrow> string option \<Rightarrow> world \<Rightarrow> json_response \<times> world" where
  "http_create_note e request authorization w =
     (case create_note e authorization (req_title request) (Some (req_position_x request))
             (Some (req_position_y request)) (Some (req_color request)) w of
        (r, w') \<Rightarrow> (respond r, w'))"

definition health :: "env \<Rightarrow> world \<Rightarrow> json_response \<times> world" where
  "health e w = (case health_check e w of (r, w') \<Rightarrow> (respond r, w'))"

text \<open>
  The routing of the protected operations: the path of a request chooses the route. The
  body of a note request is already validated: what the framework answers to a body
  that is not a note request is outside the program.
\<close>

datatype route = GetTasks | GetCategories | CreateNote create_note_request

fun run_route :: "env \<Rightarrow> route \<Rightarrow> string option \<Rightarrow> world \<Rightarrow> json_response \<times> world" where
  "run_route e GetTasks authorization w = http_get_tasks e authorization w"
| "run_route e GetCategories authorization w = http_get_categories e authorization w"
| "run_route e (CreateNote request) authorization w = http_create_note e request authorization w"

section \<open>Environments for the examples\<close>

text \<open>
  A configuration, a toy signing primitive and three backends: one that cannot be
  reached, one that answers every request with status 503, and one that answers every
  request with status 201 and a note identifier.
\<close>

definition test_settings :: settings where
  "test_settings =
     \<lparr>jwt_secret_key = ''secret'', jwt_algorithm = ''HS256'', mcp_audience = ''mcp'',
      fastapi_base_url = ''http://localhost:8080'', fastapi_api_key = ''key'',
      mcp_server_name = ''MyTaskly MCP'', mcp_server_version = ''1.0'',
      log_level = ''INFO''\<rparr>"

definition test_hmac :: "string \<Rightarrow> string \<Rightarrow> string" where
  "test_hmac secret msg = rev secret @ ''/'' @ msg"

definition env_down :: env where
  "env_down =
     \<lparr>config = test_settings, hmac = test_hmac,
      transport = (\<lambda>req. Inl (''ConnectError'', ''All connection attempts failed''))\<rparr>"

definition env_503 :: env where
  "env_503 =
     \<lparr>config = test_settings, hmac = test_hmac,
      transport = (\<lambda>req. Inr \<lparr>status_code = 503, reason_phrase = ''Service Unavailable'',
                                 json_content = Inl ''Expecting value''\<rparr>)\<rparr>"

definition env_ok :: env where
  "env_ok =
     \<lparr>config = test_settings, hmac = test_hmac,
      transport = (\<lambda>req. Inr \<lparr>status_code = 201, reason_phrase = ''Created'',
                                 json_content = Inr (JDict [(''note_id'', JInt 456),
                                                            (''status_code'', JInt 201)])\<rparr>)\<rparr>"

definition world0 :: world where
  "world0 = \<lparr>clock = 1000, client_calls = [], sent = []\<rparr>"

text \<open>The task of the formatter's test.\<close>

definition example_task :: task where
  "example_task =
     [(''task_id'', JInt 1), (''title'', JStr ''Test Task''),
      (''end_time'', JStr ''2025-12-15T18:00:00+00:00''), (''priority'', JStr ''Alta''),
      (''status'', JStr ''In sospeso''), (''category'', JStr ''Lavoro'')]"

section \<open>Decimal text is read back\<close>

lemma digit_val_digit_char: "d < 10 \<Longrightarrow> digit_val (digit_char d) = Some d"
proof -
  assume "d < 10"
  then consider "d = 0" | "d = 1" | "d = 2" | "d = 3" | "d = 4" | "d = 5" | "d = 6" | "d = 7"
    | "d = 8" | "d = 9" by atomize_elim arith
  then show ?thesis
    by cases (simp_all add: digit_val_def digit_char_def)
qed

lemma digit_char_not_dot: "d < 10 \<Longrightarrow> digit_char d \<noteq> CHR ''.'' \<and> digit_char d \<noteq> CHR ''-''"
proof -
  assume "d < 10"
  then consider "d = 0" | "d = 1" | "d = 2" | "d = 3" | "d = 4" | "d = 5" | "d = 6" | "d = 7"
    | "d = 8" | "d = 9" by atomize_elim arith
  then show ?thesis
    by cases (simp_all add: digit_char_def)
qed

lemma parse_digits_snoc:
  "parse_digits acc (xs @ [c]) =
     (case parse_digits acc xs of None \<Rightarrow> None
      | Some a \<Rightarrow> map_option (\<lambda>d. 10 * a + d) (digit_val c))"
  by (induction xs arbitrary: acc) (auto split: option.splits)

lemma str_nat_nonempty: "str_nat n \<noteq> []"
  by (subst str_nat.simps) simp

lemma parse_digits_str_nat: "parse_digits 0 (str_nat n) = Some n"
proof (induction n rule: str_nat.induct)
  case (1 n)
  show ?case
  proof (cases "n < 10")
    case True
    then show ?thesis
      by (subst str_nat.simps) (simp add: digit_val_digit_char)
  next
    case False
    with 1 have "parse_digits 0 (str_nat (n div 10)) = Some (n div 10)" by simp
    with False show ?thesis
      by (subst str_nat.simps) (simp add: parse_digits_snoc digit_val_digit_char)
  qed
qed

lemma parse_nat_str_nat: "parse_nat (str_nat n) = Some n"
  by (simp add: parse_nat_def str_nat_nonempty parse_digits_str_nat)

lemma str_nat_chars: "c \<in> set (str_nat n) \<Longrightarrow> c \<noteq> CHR ''.'' \<and> c \<noteq> CHR ''-''"
proof (induction n rule: str_nat.induct)
  case (1 n)
  show ?case
  proof (cases "n < 10")
    case True
    with 1(2) show ?thesis
      by (subst (asm) str_nat.simps) (simp add: digit_char_not_dot)
  next
    case False
    with 1 show ?thesis
      by (subst (asm) (2) str_nat.simps) (auto simp: digit_char_not_dot)
  qed
qed

lemma str_int_no_dot: "CHR ''.'' \<notin> set (str_int i)"
  using str_nat_chars by (auto simp: str_int_def)

lemma int_of_str_str_int: "int_of_str (str_int i) = Some i"
proof (cases "i < 0")
  case True
  then show ?thesis by (simp add: int_of_str_def str_int_def parse_nat_str_nat)
next
  case False
  obtain c cs where cs: "str_nat (nat i) = c # cs"
    using str_nat_nonempty by (cases "str_nat (nat i)") auto
  then have "c \<in> set (str_nat (nat i))" by simp
  then have "c \<noteq> CHR ''-''" using str_nat_chars by blast
  moreover have "parse_nat (c # cs) = Some (nat i)" using parse_nat_str_nat cs by metis
  ultimately show ?thesis using False cs by (simp add: int_of_str_def str_int_def)
qed

section \<open>Tokens\<close>

lemma split_dot_append:
  "CHR ''.'' \<notin> set a \<Longrightarrow> split_dot (a @ CHR ''.'' # rest) = Some (a, rest)"
  by (induction a) (auto simp: split_dot_def)

lemma jwt_decode_encode:
  assumes "CHR ''.'' \<notin> set (claim_sub p)" and "CHR ''.'' \<notin> set (claim_type p)"
  shows "jwt_decode e (jwt_encode e p secret) secret now =
           (if claim_exp p \<le> now then Inl ExpiredSignatureError else Inr p)"
  using assms
  by (simp add: jwt_decode_def jwt_encode_def signing_input_def split_dot_append
        str_int_no_dot int_of_str_str_int)

lemma jwt_decode_bad_signature:
  assumes "CHR ''.'' \<notin> set s1" and "CHR ''.'' \<notin> set s2" and "CHR ''.'' \<notin> set s3"
    and "signature \<noteq> hmac e secret (s1 @ ''.'' @ s2 @ ''.'' @ s3)"
  shows "jwt_decode e (s1 @ ''.'' @ s2 @ ''.'' @ s3 @ ''.'' @ signature) secret now
           = Inl DecodeError \<or>
         jwt_decode e (s1 @ ''.'' @ s2 @ ''.'' @ s3 @ ''.'' @ signature) secret now
           = Inl InvalidSignatureError"
  using assms
  by (simp add: jwt_decode_def split_dot_append split: option.splits)

lemma test_payload_no_dot:
  "CHR ''.'' \<notin> set (claim_sub (test_payload now user_id m))"
  "CHR ''.'' \<notin> set (claim_type (test_payload now user_id m))"
  by (simp_all add: test_payload_def str_int_no_dot)

lemma verify_bearer:
  "verify_jwt_token e now (Some (''Bearer '' @ token)) =
     (case jwt_decode e token (jwt_secret_key (config e)) now of
        Inl ExpiredSignatureError \<Rightarrow> Inl (HTTPException 401 ''Token has expired'')
      | Inl _ \<Rightarrow> Inl (HTTPException 401 ''Invalid token'')
      | Inr payload \<Rightarrow>
          (case int_of_str (claim_sub payload) of
             None \<Rightarrow> Inl (HTTPException 401 ''Invalid token'')
           | Some user_id \<Rightarrow> Inr user_id))"
  by (simp add: verify_jwt_token_def)

lemma verify_failure_401:
  "verify_jwt_token e now a = Inl ex \<Longrightarrow> \<exists>d. ex = HTTPException 401 d"
  by (auto simp: verify_jwt_token_def split: option.splits if_splits sum.splits jwt_error.splits)

text \<open>
  Claim C1. For every user identifier and every positive time to live, verifying the
  header value \<open>Bearer\<close> followed by the issued token, at any instant before the expiry
  instant, succeeds and returns that user identifier as an integer.
\<close>

theorem verify_issue_roundtrip:
  "0 < expires_minutes \<Longrightarrow> t < now + 60 * expires_minutes \<Longrightarrow>
   verify_jwt_token e t (Some (''Bearer '' @ create_test_token e now user_id expires_minutes))
     = Inr user_id"
  by (subst verify_bearer)
     (simp add: create_test_token_def jwt_decode_encode test_payload_no_dot,
      simp add: test_payload_def int_of_str_str_int)

theorem verify_issue_roundtrip_witness:
  "(0::int) < 30 \<and> (1000::int) < 1000 + 60 * 30 \<and>
   verify_jwt_token env_ok 1000 (Some (''Bearer '' @ create_test_token env_ok 1000 123 30))
     = Inr 123"
  using verify_issue_roundtrip [of 30 1000 1000 env_ok 123] by simp

text \<open>
  Claim C2. \<open>verify_jwt_token\<close> fails with status 401 and returns no subject when the
  header is absent, when the header value does not start with the Bearer scheme, when
  the signature of the token is not the one the secret gives for the text it signs
  (whatever the three segments before it are), and when the token was issued with a
  time to live of zero or less.
\<close>

theorem verify_rejects:
  "(\<exists>d. verify_jwt_token e t None = Inl (HTTPException 401 d)) \<and>
   (\<not> prefix ''Bearer '' h \<longrightarrow> (\<exists>d. verify_jwt_token e t (Some h) = Inl (HTTPException 401 d))) \<and>
   (CHR ''.'' \<notin> set s1 \<and> CHR ''.'' \<notin> set s2 \<and> CHR ''.'' \<notin> set s3 \<and>
    signature \<noteq> hmac e (jwt_secret_key (config e)) (s1 @ ''.'' @ s2 @ ''.'' @ s3) \<longrightarrow>
      (\<exists>d. verify_jwt_token e t
              (Some (''Bearer '' @ s1 @ ''.'' @ s2 @ ''.'' @ s3 @ ''.'' @ signature))
            = Inl (HTTPException 401 d))) \<and>
   (m \<le> 0 \<and> now \<le> t \<longrightarrow>
      (\<exists>d. verify_jwt_token e t (Some (''Bearer '' @ create_test_token e now user_id m))
            = Inl (HTTPException 401 d)))"
proof (intro conjI impI)
  show "\<exists>d. verify_jwt_token e t None = Inl (HTTPException 401 d)"
    by (simp add: verify_jwt_token_def)
  show "\<exists>d. verify_jwt_token e t (Some h) = Inl (HTTPException 401 d)"
    if "\<not> prefix ''Bearer '' h"
    using that by (simp add: verify_jwt_token_def)
  show "\<exists>d. verify_jwt_token e t
              (Some (''Bearer '' @ s1 @ ''.'' @ s2 @ ''.'' @ s3 @ ''.'' @ signature))
            = Inl (HTTPException 401 d)"
    if h: "CHR ''.'' \<notin> set s1 \<and> CHR ''.'' \<notin> set s2 \<and> CHR ''.'' \<notin> set s3 \<and>
        signature \<noteq> hmac e (jwt_secret_key (config e)) (s1 @ ''.'' @ s2 @ ''.'' @ s3)"
  proof -
    from h have "jwt_decode e (s1 @ ''.'' @ s2 @ ''.'' @ s3 @ ''.'' @ signature)
                   (jwt_secret_key (config e)) t = Inl DecodeError \<or>
                 jwt_decode e (s1 @ ''.'' @ s2 @ ''.'' @ s3 @ ''.'' @ signature)
                   (jwt_secret_key (config e)) t = Inl InvalidSignatureError"
      by (intro jwt_decode_bad_signature) simp_all
    then show ?thesis
      by (subst verify_bearer) auto
  qed
  show "\<exists>d. verify_jwt_token e t (Some (''Bearer '' @ create_test_token e now user_id m))
            = Inl (HTTPException 401 d)"
    if "m \<le> 0 \<and> now \<le> t"
  proof -
    from that have "claim_exp (test_payload now user_id m) \<le> t"
      by (simp add: test_payload_def)
    then show ?thesis
      by (subst verify_bearer)
         (simp add: create_test_token_def jwt_decode_encode test_payload_no_dot)
  qed
qed

theorem verify_rejects_witness:
  "\<not> prefix ''Bearer '' ''InvalidFormat'' \<and>
   (CHR ''.'' \<notin> set ''42'' \<and> CHR ''.'' \<notin> set ''refresh'' \<and> CHR ''.'' \<notin> set ''999999'' \<and>
    ''forged'' \<noteq> hmac env_ok (jwt_secret_key (config env_ok))
                    (''42'' @ ''.'' @ ''refresh'' @ ''.'' @ ''999999'')) \<and>
   ((- 1 :: int) \<le> 0 \<and> (1000 :: int) \<le> 1000) \<and>
   (\<exists>d. verify_jwt_token env_ok 1000 None = Inl (HTTPException 401 d)) \<and>
   (\<exists>d. verify_jwt_token env_ok 1000 (Some ''InvalidFormat'') = Inl (HTTPException 401 d)) \<and>
   (\<exists>d. verify_jwt_token env_ok 1000 (Some ''Bearer 42.refresh.999999.forged'')
         = Inl (HTTPException 401 d)) \<and>
   (\<exists>d. verify_jwt_token env_ok 1000 (Some (''Bearer '' @ create_test_token env_ok 1000 123 (- 1)))
         = Inl (HTTPException 401 d))"
proof -
  have a: "\<not> prefix ''Bearer '' ''InvalidFormat''" by simp
  have b: "CHR ''.'' \<notin> set ''42'' \<and> CHR ''.'' \<notin> set ''refresh'' \<and> CHR ''.'' \<notin> set ''999999'' \<and>
           ''forged'' \<noteq> hmac env_ok (jwt_secret_key (config env_ok))
                           (''42'' @ ''.'' @ ''refresh'' @ ''.'' @ ''999999'')"
    by (simp add: env_ok_def test_hmac_def test_settings_def)
  show ?thesis
    using a b
      verify_rejects [where e = env_ok and t = 1000 and h = "''InvalidFormat''"
        and ?s1.0 = "''42''" and ?s2.0 = "''refresh''" and ?s3.0 = "''999999''"
        and signature = "''forged''" and now = 1000 and user_id = 123 and m = "- 1"]
    by simp
qed

section \<open>The tools\<close>

lemma verify_invalid_token:
  "verify_jwt_token e now (Some ''Bearer invalid_token_12345'')
     = Inl (HTTPException 401 ''Invalid token'')"
  by (simp add: verify_jwt_token_def jwt_decode_def split_dot_def)

text \<open>
  Claim C3. For each protected tool (\<open>get_tasks\<close>, \<open>get_categories\<close>, \<open>create_note\<close>) and
  every authorization value whose verification fails, the tool raises the verification
  error, which has status 401, and leaves the world as it was: no method of the backend
  client is entered and no request is sent.
\<close>

theorem auth_failure_short_circuits:
  "verify_jwt_token e (clock w) a = Inl ex \<Longrightarrow>
     (\<exists>d. ex = HTTPException 401 d) \<and>
     get_tasks e a w = (Inl ex, w) \<and>
     get_categories e a w = (Inl ex, w) \<and>
     create_note e a title px py col w = (Inl ex, w)"
  by (simp add: get_tasks_def get_categories_def create_note_def verify_failure_401)

theorem auth_failure_short_circuits_witness:
  "verify_jwt_token env_ok (clock world0) (Some ''Bearer invalid_token_12345'')
     = Inl (HTTPException 401 ''Invalid token'') \<and>
   get_tasks env_ok (Some ''Bearer invalid_token_12345'') world0
     = (Inl (HTTPException 401 ''Invalid token''), world0) \<and>
   get_categories env_ok (Some ''Bearer invalid_token_12345'') world0
     = (Inl (HTTPException 401 ''Invalid token''), world0) \<and>
   create_note env_ok (Some ''Bearer invalid_token_12345'') ''Test'' None None None world0
     = (Inl (HTTPException 401 ''Invalid token''), world0) \<and>
   sent world0 = [] \<and> client_calls world0 = []"
  using auth_failure_short_circuits
          [OF verify_invalid_token, of env_ok world0 "''Test''" None None None]
  by (simp add: verify_invalid_token world0_def)

section \<open>The backend client and the error handlers\<close>

lemma str_nat_401: "str_nat 401 = ''401''"
  by (simp add: str_nat.simps digit_char_def)

lemma verify_created_token:
  "t < now + 60 * m \<Longrightarrow>
   verify_jwt_token e t (Some (''Bearer '' @ create_test_token e now user_id m)) = Inr user_id"
  by (subst verify_bearer)
     (simp add: create_test_token_def jwt_decode_encode test_payload_no_dot,
      simp add: test_payload_def int_of_str_str_int)

lemma respond_unauthenticated:
  "respond (Inl (HTTPException 401 d)) = error_envelope 401 d ''HTTP_401''"
  by (simp add: respond_def http_exception_handler_def error_envelope_def str_nat_401)

lemma respond_other:
  "(\<forall>s d. exc \<noteq> HTTPException s d) \<Longrightarrow>
   respond (Inl exc) =
     error_envelope 500 (''Internal server error: '' @ str_exn exc) ''INTERNAL_ERROR''"
  by (cases exc) (simp_all add: respond_def general_exception_handler_def error_envelope_def)

lemma raise_for_status_refuses:
  assumes "\<not> (200 \<le> status_code response \<and> status_code response \<le> 299)"
  shows "\<exists>m. raise_for_status req response = Inl (HTTPStatusError (status_code response) m) \<and>
             sublist (str_nat (status_code response)) m"
proof -
  let ?m = "(error_type (status_code response) @ '' '' @ [CHR 0x27])
            @ str_nat (status_code response)
            @ ('' '' @ reason_phrase response @ [CHR 0x27]
               @ '' for url '' @ [CHR 0x27] @ url req @ [CHR 0x27] @ [CHR 0x0A]
               @ ''For more information check: ''
               @ ''https://developer.mozilla.org/en-US/docs/Web/HTTP/Status/''
               @ str_nat (status_code response))"
  have "raise_for_status req response = Inl (HTTPStatusError (status_code response) ?m)"
    using assms by (simp add: raise_for_status_def)
  moreover have "sublist (str_nat (status_code response)) ?m"
    by (rule sublist_appendI)
  ultimately show ?thesis by blast
qed

lemma client_get_tasks_outcome:
  "\<exists>req. snd (FastAPIClient_get_tasks e u w) = (enter ''get_tasks'' w)\<lparr>sent := sent w @ [req]\<rparr> \<and>
     (\<forall>cls msg. transport e req = Inl (cls, msg) \<longrightarrow>
        fst (FastAPIClient_get_tasks e u w) = Inl (PyError cls msg)) \<and>
     (\<forall>response m. transport e req = Inr response \<longrightarrow> raise_for_status req response = Inl m \<longrightarrow>
        fst (FastAPIClient_get_tasks e u w) = Inl m)"
  by (auto simp: FastAPIClient_get_tasks_def Let_def send_def enter_def split: sum.splits prod.splits)

lemma client_get_categories_outcome:
  "\<exists>req. snd (FastAPIClient_get_categories e u w) = (enter ''get_categories'' w)\<lparr>sent := sent w @ [req]\<rparr> \<and>
     (\<forall>cls msg. transport e req = Inl (cls, msg) \<longrightarrow>
        fst (FastAPIClient_get_categories e u w) = Inl (PyError cls msg)) \<and>
     (\<forall>response m. transport e req = Inr response \<longrightarrow> raise_for_status req response = Inl m \<longrightarrow>
        fst (FastAPIClient_get_categories e u w) = Inl m)"
  by (auto simp: FastAPIClient_get_categories_def Let_def send_def enter_def split: sum.splits prod.splits)

lemma client_create_note_outcome:
  "\<exists>req. snd (FastAPIClient_create_note e u title px py col w)
            = (enter ''create_note'' w)\<lparr>sent := sent w @ [req]\<rparr> \<and>
     (\<forall>cls msg. transport e req = Inl (cls, msg) \<longrightarrow>
        fst (FastAPIClient_create_note e u title px py col w) = Inl (PyError cls msg)) \<and>
     (\<forall>response m. transport e req = Inr response \<longrightarrow> raise_for_status req response = Inl m \<longrightarrow>
        fst (FastAPIClient_create_note e u title px py col w) = Inl m)"
  by (auto simp: FastAPIClient_create_note_def Let_def send_def enter_def split: sum.splits prod.splits)

lemma client_get_tasks_error:
  "fst (FastAPIClient_get_tasks e u w) = Inl ex \<Longrightarrow> \<forall>s d. ex \<noteq> HTTPException s d"
  by (auto simp: FastAPIClient_get_tasks_def Let_def send_def raise_for_status_def response_json_def
      split: sum.splits prod.splits if_splits)

lemma client_get_categories_error:
  "fst (FastAPIClient_get_categories e u w) = Inl ex \<Longrightarrow> \<forall>s d. ex \<noteq> HTTPException s d"
  by (auto simp: FastAPIClient_get_categories_def Let_def send_def raise_for_status_def response_json_def
      split: sum.splits prod.splits if_splits)

lemma client_create_note_error:
  "fst (FastAPIClient_create_note e u title px py col w) = Inl ex \<Longrightarrow> \<forall>s d. ex \<noteq> HTTPException s d"
  by (auto simp: FastAPIClient_create_note_def Let_def send_def raise_for_status_def response_json_def
      subscript_def
      split: sum.splits prod.splits if_splits json.splits option.splits)

section \<open>The HTTP adapter\<close>

lemma sent_enter: "sent (enter n w) = sent w"
  by (simp add: enter_def)

lemma get_tasks_error_kind:
  assumes "fst (get_tasks e a w) = Inl ex"
  shows "(\<exists>d. ex = HTTPException 401 d) \<or> (\<forall>s d. ex \<noteq> HTTPException s d)"
proof (cases "verify_jwt_token e (clock w) a")
  case (Inl ex')
  with assms show ?thesis
    using verify_failure_401 [OF Inl] by (simp add: get_tasks_def)
next
  case (Inr u)
  show ?thesis
  proof (cases "fst (FastAPIClient_get_tasks e u w)")
    case (Inl ex')
    with assms Inr have "ex = ex'"
      by (simp add: get_tasks_def split: prod.splits)
    with client_get_tasks_error [OF Inl] show ?thesis by simp
  next
    case r: (Inr tasks)
    with assms Inr show ?thesis
      by (auto simp: get_tasks_def as_tasks_def split: prod.splits json.splits option.splits)
  qed
qed

lemma get_categories_error_kind:
  assumes "fst (get_categories e a w) = Inl ex"
  shows "(\<exists>d. ex = HTTPException 401 d) \<or> (\<forall>s d. ex \<noteq> HTTPException s d)"
proof (cases "verify_jwt_token e (clock w) a")
  case (Inl ex')
  with assms show ?thesis
    using verify_failure_401 [OF Inl] by (simp add: get_categories_def)
next
  case (Inr u)
  show ?thesis
  proof (cases "fst (FastAPIClient_get_categories e u w)")
    case (Inl ex')
    with assms Inr have "ex = ex'"
      by (simp add: get_categories_def split: prod.splits)
    with client_get_categories_error [OF Inl] show ?thesis by simp
  next
    case r: (Inr cats)
    with assms Inr show ?thesis
      by (auto simp: get_categories_def len_def split: prod.splits json.splits option.splits)
  qed
qed

lemma create_note_error_kind:
  assumes "fst (create_note e a title px py col w) = Inl ex"
  shows "(\<exists>d. ex = HTTPException 401 d) \<or> (\<forall>s d. ex \<noteq> HTTPException s d)"
proof (cases "verify_jwt_token e (clock w) a")
  case (Inl ex')
  with assms show ?thesis
    using verify_failure_401 [OF Inl] by (simp add: create_note_def)
next
  case (Inr u)
  with assms client_create_note_error show ?thesis
    by (simp add: create_note_def Let_def)
qed

lemma respond_kinds:
  assumes "r = Inl ex \<Longrightarrow> (\<exists>d. ex = HTTPException 401 d) \<or> (\<forall>s d. ex \<noteq> HTTPException s d)"
    and "\<And>ex. r = Inl ex \<Longrightarrow> (\<exists>d. ex = HTTPException 401 d) \<or> (\<forall>s d. ex \<noteq> HTTPException s d)"
  shows "(\<exists>v. respond r = \<lparr>response_status = 200, response_content = v\<rparr>) \<or>
         (\<exists>d. respond r = error_envelope 401 d ''HTTP_401'') \<or>
         (\<exists>d. respond r = error_envelope 500 d ''INTERNAL_ERROR'')"
proof (cases r)
  case (Inl ex)
  from assms(2) [OF Inl] show ?thesis
  proof
    assume "\<exists>d. ex = HTTPException 401 d"
    then show ?thesis using Inl respond_unauthenticated by auto
  next
    assume "\<forall>s d. ex \<noteq> HTTPException s d"
    then show ?thesis using Inl respond_other by auto
  qed
next
  case (Inr v)
  then show ?thesis by (simp add: respond_def)
qed

lemma route_response_kinds:
  "(\<exists>v. fst (run_route e r a w) = \<lparr>response_status = 200, response_content = v\<rparr>) \<or>
   (\<exists>d. fst (run_route e r a w) = error_envelope 401 d ''HTTP_401'') \<or>
   (\<exists>d. fst (run_route e r a w) = error_envelope 500 d ''INTERNAL_ERROR'')"
proof (cases r)
  case GetTasks
  have "fst (run_route e r a w) = respond (fst (get_tasks e a w))"
    by (simp add: GetTasks http_get_tasks_def split: prod.splits)
  then show ?thesis
    using respond_kinds [of "fst (get_tasks e a w)"] get_tasks_error_kind [of e a w] by presburger
next
  case GetCategories
  have "fst (run_route e r a w) = respond (fst (get_categories e a w))"
    by (simp add: GetCategories http_get_categories_def split: prod.splits)
  then show ?thesis
    using respond_kinds [of "fst (get_categories e a w)"] get_categories_error_kind [of e a w]
    by presburger
next
  case (CreateNote q)
  have "fst (run_route e r a w) =
          respond (fst (create_note e a (req_title q) (Some (req_position_x q))
                          (Some (req_position_y q)) (Some (req_color q)) w))"
    by (simp add: CreateNote http_create_note_def split: prod.splits)
  then show ?thesis
    using respond_kinds [of "fst (create_note e a (req_title q) (Some (req_position_x q))
                          (Some (req_position_y q)) (Some (req_color q)) w)"]
      create_note_error_kind [of e a "req_title q" _ _ _ w]
    by presburger
qed

lemma route_unauthenticated:
  assumes "verify_jwt_token e (clock w) a = Inl ex"
  shows "\<exists>d. run_route e r a w = (error_envelope 401 d ''HTTP_401'', w)"
proof -
  from verify_failure_401 [OF assms] obtain d where d: "ex = HTTPException 401 d" ..
  with assms show ?thesis
    by (cases r)
       (auto simp: http_get_tasks_def http_get_categories_def http_create_note_def
          get_tasks_def get_categories_def create_note_def Let_def respond_unauthenticated)
qed

lemma route_upstream:
  assumes "verify_jwt_token e (clock w) a = Inr user_id"
  shows "\<exists>req. sent (snd (run_route e r a w)) = sent w @ [req] \<and>
           (\<forall>cls msg. transport e req = Inl (cls, msg) \<longrightarrow>
              fst (run_route e r a w) =
                error_envelope 500 (''Internal server error: '' @ msg) ''INTERNAL_ERROR'') \<and>
           (\<forall>response. transport e req = Inr response \<and>
                \<not> (200 \<le> status_code response \<and> status_code response \<le> 299) \<longrightarrow>
              (\<exists>m. raise_for_status req response = Inl (HTTPStatusError (status_code response) m) \<and>
                   sublist (str_nat (status_code response)) m \<and>
                   fst (run_route e r a w) =
                     error_envelope 500 (''Internal server error: '' @ m) ''INTERNAL_ERROR''))"
proof (cases r)
  case GetTasks
  from client_get_tasks_outcome [of e user_id w] obtain req where
    s: "snd (FastAPIClient_get_tasks e user_id w) = (enter ''get_tasks'' w)\<lparr>sent := sent w @ [req]\<rparr>"
    and t: "\<And>cls msg. transport e req = Inl (cls, msg) \<Longrightarrow>
              fst (FastAPIClient_get_tasks e user_id w) = Inl (PyError cls msg)"
    and h: "\<And>response m. transport e req = Inr response \<Longrightarrow> raise_for_status req response = Inl m \<Longrightarrow>
              fst (FastAPIClient_get_tasks e user_id w) = Inl m"
    by blast
  have f: "fst (FastAPIClient_get_tasks e user_id w) = Inl ex \<Longrightarrow>
             fst (run_route e r a w) = respond (Inl ex)" for ex
    using assms
    by (cases "FastAPIClient_get_tasks e user_id w") (simp add: GetTasks http_get_tasks_def get_tasks_def)
  have "sent (snd (run_route e r a w)) = sent w @ [req]"
    using assms s
    by (auto simp: GetTasks http_get_tasks_def get_tasks_def split: prod.splits sum.splits)
  moreover have "fst (run_route e r a w) =
       error_envelope 500 (''Internal server error: '' @ msg) ''INTERNAL_ERROR''"
    if "transport e req = Inl (cls, msg)" for cls msg
    using f [OF t [OF that]] by (simp add: respond_other)
  moreover have "\<exists>m. raise_for_status req response = Inl (HTTPStatusError (status_code response) m) \<and>
       sublist (str_nat (status_code response)) m \<and>
       fst (run_route e r a w) = error_envelope 500 (''Internal server error: '' @ m) ''INTERNAL_ERROR''"
    if "transport e req = Inr response \<and> \<not> (200 \<le> status_code response \<and> status_code response \<le> 299)"
    for response
  proof -
    from that raise_for_status_refuses [of response req] obtain m where
      m: "raise_for_status req response = Inl (HTTPStatusError (status_code response) m)"
      and sub: "sublist (str_nat (status_code response)) m" by blast
    from f [OF h [OF _ m]] that m sub show ?thesis by (simp add: respond_other)
  qed
  ultimately show ?thesis by blast
next
  case GetCategories
  from client_get_categories_outcome [of e user_id w] obtain req where
    s: "snd (FastAPIClient_get_categories e user_id w) = (enter ''get_categories'' w)\<lparr>sent := sent w @ [req]\<rparr>"
    and t: "\<And>cls msg. transport e req = Inl (cls, msg) \<Longrightarrow>
              fst (FastAPIClient_get_categories e user_id w) = Inl (PyError cls msg)"
    and h: "\<And>response m. transport e req = Inr response \<Longrightarrow> raise_for_status req response = Inl m \<Longrightarrow>
              fst (FastAPIClient_get_categories e user_id w) = Inl m"
    by blast
  have f: "fst (FastAPIClient_get_categories e user_id w) = Inl ex \<Longrightarrow>
             fst (run_route e r a w) = respond (Inl ex)" for ex
    using assms
    by (cases "FastAPIClient_get_categories e user_id w")
       (simp add: GetCategories http_get_categories_def get_categories_def)
  have "sent (snd (run_route e r a w)) = sent w @ [req]"
    using assms s
    by (auto simp: GetCategories http_get_categories_def get_categories_def split: prod.splits sum.splits)
  moreover have "fst (run_route e r a w) =
       error_envelope 500 (''Internal server error: '' @ msg) ''INTERNAL_ERROR''"
    if "transport e req = Inl (cls, msg)" for cls msg
    using f [OF t [OF that]] by (simp add: respond_other)
  moreover have "\<exists>m. raise_for_status req response = Inl (HTTPStatusError (status_code response) m) \<and>
       sublist (str_nat (status_code response)) m \<and>
       fst (run_route e r a w) = error_envelope 500 (''Internal server error: '' @ m) ''INTERNAL_ERROR''"
    if "transport e req = Inr response \<and> \<not> (200 \<le> status_code response \<and> status_code response \<le> 299)"
    for response
  proof -
    from that raise_for_status_refuses [of response req] obtain m where
      m: "raise_for_status req response = Inl (HTTPStatusError (status_code response) m)"
      and sub: "sublist (str_nat (status_code response)) m" by blast
    from f [OF h [OF _ m]] that m sub show ?thesis by (simp add: respond_other)
  qed
  ultimately show ?thesis by blast
next
  case (CreateNote q)
  let ?c = "FastAPIClient_create_note e user_id (req_title q) (Some (req_position_x q))
              (Some (req_position_y q)) (Some (req_color q)) w"
  from client_create_note_outcome [of e user_id "req_title q" "Some (req_position_x q)"
         "Some (req_position_y q)" "Some (req_color q)" w] obtain req where
    s: "snd ?c = (enter ''create_note'' w)\<lparr>sent := sent w @ [req]\<rparr>"
    and t: "\<And>cls msg. transport e req = Inl (cls, msg) \<Longrightarrow> fst ?c = Inl (PyError cls msg)"
    and h: "\<And>response m. transport e req = Inr response \<Longrightarrow> raise_for_status req response = Inl m \<Longrightarrow>
              fst ?c = Inl m"
    by blast
  have c: "create_note e a (req_title q) (Some (req_position_x q))
              (Some (req_position_y q)) (Some (req_color q)) w = ?c"
    using assms by (simp add: create_note_def default_arg_def)
  have f: "fst ?c = Inl ex \<Longrightarrow> fst (run_route e r a w) = respond (Inl ex)" for ex
    by (cases ?c) (simp add: CreateNote http_create_note_def c)
  have "sent (snd (run_route e r a w)) = sent w @ [req]"
    using s by (cases ?c) (simp add: CreateNote http_create_note_def c)
  moreover have "fst (run_route e r a w) =
       error_envelope 500 (''Internal server error: '' @ msg) ''INTERNAL_ERROR''"
    if "transport e req = Inl (cls, msg)" for cls msg
    using f [OF t [OF that]] by (simp add: respond_other)
  moreover have "\<exists>m. raise_for_status req response = Inl (HTTPStatusError (status_code response) m) \<and>
       sublist (str_nat (status_code response)) m \<and>
       fst (run_route e r a w) = error_envelope 500 (''Internal server error: '' @ m) ''INTERNAL_ERROR''"
    if "transport e req = Inr response \<and> \<not> (200 \<le> status_code response \<and> status_code response \<le> 299)"
    for response
  proof -
    from that raise_for_status_refuses [of response req] obtain m where
      m: "raise_for_status req response = Inl (HTTPStatusError (status_code response) m)"
      and sub: "sublist (str_nat (status_code response)) m" by blast
    from f [OF h [OF _ m]] that m sub show ?thesis by (simp add: respond_other)
  qed
  ultimately show ?thesis by blast
qed

text \<open>
  Claim C8. For every request to a protected route: an authentication failure is
  answered with status 401; when the credential is verified, a failure of the one
  request sent to the backend, the transport raising or the backend answering with a
  status outside 200-299, is answered with status 500 and a detail that carries the
  message of the failure (for a refused status, the message of \<open>HTTPStatusError\<close>, in
  which the digits of that status stand); every exception that is not an \<open>HTTPException\<close> is answered with
  status 500; and every answer that is not the result with status 200 is the envelope
  of a detail and an error code, with status 401 or 500.
\<close>

theorem http_error_mapping:
  "(\<forall>ex. verify_jwt_token e (clock w) a = Inl ex \<longrightarrow>
      (\<exists>d. run_route e r a w = (error_envelope 401 d ''HTTP_401'', w))) \<and>
   (\<forall>user_id. verify_jwt_token e (clock w) a = Inr user_id \<longrightarrow>
      (\<exists>req. sent (snd (run_route e r a w)) = sent w @ [req] \<and>
         (\<forall>cls msg. transport e req = Inl (cls, msg) \<longrightarrow>
            fst (run_route e r a w) =
              error_envelope 500 (''Internal server error: '' @ msg) ''INTERNAL_ERROR'') \<and>
         (\<forall>response. transport e req = Inr response \<and>
              \<not> (200 \<le> status_code response \<and> status_code response \<le> 299) \<longrightarrow>
            (\<exists>m. raise_for_status req response = Inl (HTTPStatusError (status_code response) m) \<and>
                 sublist (str_nat (status_code response)) m \<and>
                 fst (run_route e r a w) =
                   error_envelope 500 (''Internal server error: '' @ m) ''INTERNAL_ERROR'')))) \<and>
   (\<forall>exc. (\<forall>s d. exc \<noteq> HTTPException s d) \<longrightarrow>
      respond (Inl exc) =
        error_envelope 500 (''Internal server error: '' @ str_exn exc) ''INTERNAL_ERROR'') \<and>
   ((\<exists>v. fst (run_route e r a w) = \<lparr>response_status = 200, response_content = v\<rparr>) \<or>
    (\<exists>d. fst (run_route e r a w) = error_envelope 401 d ''HTTP_401'') \<or>
    (\<exists>d. fst (run_route e r a w) = error_envelope 500 d ''INTERNAL_ERROR''))"
  using route_unauthenticated [of e w a _ r] route_upstream [of e w a _ r]
    respond_other route_response_kinds [of e r a w]
  by (intro conjI allI impI) assumption+

theorem http_error_mapping_witness:
  "fst (run_route env_ok GetTasks (Some ''Bearer invalid_token_12345'') world0)
     = error_envelope 401 ''Invalid token'' ''HTTP_401'' \<and>
   fst (run_route env_down GetCategories
          (Some (''Bearer '' @ create_test_token env_down 1000 1 30)) world0)
     = error_envelope 500 ''Internal server error: All connection attempts failed''
         ''INTERNAL_ERROR'' \<and>
   (\<exists>m. fst (run_route env_503 (CreateNote (CreateNoteRequest ''Test'' None None None))
               (Some (''Bearer '' @ create_test_token env_503 1000 1 30)) world0)
         = error_envelope 500 (''Internal server error: '' @ m) ''INTERNAL_ERROR'')"
proof (intro conjI)
  let ?bad = "Some ''Bearer invalid_token_12345''"
  note H = http_error_mapping [of env_ok world0 ?bad GetTasks]
  from H [THEN conjunct1, THEN spec, THEN mp, OF verify_invalid_token]
  obtain d where d: "run_route env_ok GetTasks ?bad world0 = (error_envelope 401 d ''HTTP_401'', world0)"
    ..
  have "fst (run_route env_ok GetTasks ?bad world0)
      = respond (Inl (HTTPException 401 ''Invalid token''))"
    by (simp add: http_get_tasks_def get_tasks_def verify_invalid_token)
  with d show "fst (run_route env_ok GetTasks ?bad world0)
      = error_envelope 401 ''Invalid token'' ''HTTP_401''"
    by (simp add: respond_unauthenticated)
next
  let ?a = "Some (''Bearer '' @ create_test_token env_down 1000 1 30)"
  have v: "verify_jwt_token env_down (clock world0) ?a = Inr 1"
    by (rule verify_created_token) (simp add: world0_def)
  have t: "transport env_down req = Inl (''ConnectError'', ''All connection attempts failed'')"
    for req by (simp add: env_down_def)
  note H = http_error_mapping [of env_down world0 ?a GetCategories]
  from H [THEN conjunct2, THEN conjunct1, THEN spec, THEN mp, OF v]
  obtain req where
    "\<forall>cls msg. transport env_down req = Inl (cls, msg) \<longrightarrow>
        fst (run_route env_down GetCategories ?a world0) =
          error_envelope 500 (''Internal server error: '' @ msg) ''INTERNAL_ERROR''"
    by (elim exE conjE)
  from this [THEN spec, THEN spec, THEN mp, OF t]
  show "fst (run_route env_down GetCategories ?a world0)
     = error_envelope 500 ''Internal server error: All connection attempts failed''
         ''INTERNAL_ERROR''"
    by simp
next
  let ?a = "Some (''Bearer '' @ create_test_token env_503 1000 1 30)"
  let ?r = "CreateNote (CreateNoteRequest ''Test'' None None None)"
  let ?resp = "\<lparr>status_code = 503, reason_phrase = ''Service Unavailable'',
                  json_content = Inl ''Expecting value''\<rparr>"
  have v: "verify_jwt_token env_503 (clock world0) ?a = Inr 1"
    by (rule verify_created_token) (simp add: world0_def)
  have t: "transport env_503 req = Inr ?resp \<and>
           \<not> (200 \<le> status_code ?resp \<and> status_code ?resp \<le> 299)"
    for req by (simp add: env_503_def)
  note H = http_error_mapping [of env_503 world0 ?a ?r]
  from H [THEN conjunct2, THEN conjunct1, THEN spec, THEN mp, OF v]
  obtain req where
    "\<forall>response. transport env_503 req = Inr response \<and>
              \<not> (200 \<le> status_code response \<and> status_code response \<le> 299) \<longrightarrow>
       (\<exists>m. raise_for_status req response = Inl (HTTPStatusError (status_code response) m) \<and>
            sublist (str_nat (status_code response)) m \<and>
            fst (run_route env_503 ?r ?a world0) =
              error_envelope 500 (''Internal server error: '' @ m) ''INTERNAL_ERROR'')"
    by (elim exE conjE)
  from this [THEN spec, THEN mp, OF t]
  show "\<exists>m. fst (run_route env_503 ?r ?a world0)
         = error_envelope 500 (''Internal server error: '' @ m) ''INTERNAL_ERROR''"
    by (elim exE conjE) (rule exI)
qed

section \<open>Notes\<close>

lemma client_create_note_result:
  "FastAPIClient_create_note e u title px py col w = (Inr note, w') \<Longrightarrow>
   \<exists>note_id. note = JDict [(''note_id'', note_id), (''title'', JStr title),
                            (''color'', JStr (default_arg ''#FFEB3B'' col)),
                            (''position_x'', JStr (default_arg ''0'' px)),
                            (''position_y'', JStr (default_arg ''0'' py)),
                            (''message'', JStr ''[OK] Nota creata con successo'')]"
  unfolding FastAPIClient_create_note_def Let_def
  by (simp split: sum.splits prod.splits) blast

lemma create_note_result:
  assumes "create_note e a title px py col w = (Inr note, w')"
  shows "\<exists>note_id. note = JDict [(''note_id'', note_id), (''title'', JStr title),
                            (''color'', JStr (default_arg ''#FFEB3B'' col)),
                            (''position_x'', JStr (default_arg ''0'' px)),
                            (''position_y'', JStr (default_arg ''0'' py)),
                            (''message'', JStr ''[OK] Nota creata con successo'')]"
proof (cases "verify_jwt_token e (clock w) a")
  case (Inl ex)
  with assms show ?thesis by (simp add: create_note_def)
next
  case (Inr u)
  with assms have "FastAPIClient_create_note e u title (Some (default_arg ''0'' px))
       (Some (default_arg ''0'' py)) (Some (default_arg ''#FFEB3B'' col)) w = (Inr note, w')"
    by (simp add: create_note_def Let_def)
  from client_create_note_result [OF this] show ?thesis
    by (simp add: default_arg_def)
qed

lemma note_fields:
  "note = JDict [(''note_id'', note_id), (''title'', JStr title),
                 (''color'', JStr c), (''position_x'', JStr x), (''position_y'', JStr y),
                 (''message'', JStr m)] \<Longrightarrow>
   subscript note ''position_x'' = Inr (JStr x) \<and>
   subscript note ''position_y'' = Inr (JStr y) \<and>
   subscript note ''color'' = Inr (JStr c)"
  by (simp add: subscript_def)

lemma http_create_note_ok:
  assumes "http_create_note e q a w = (resp, w')" and "response_status resp = 200"
  shows "\<exists>note. create_note e a (req_title q) (Some (req_position_x q))
                  (Some (req_position_y q)) (Some (req_color q)) w = (Inr note, w') \<and>
                response_content resp = note"
proof -
  let ?c = "create_note e a (req_title q) (Some (req_position_x q))
              (Some (req_position_y q)) (Some (req_color q)) w"
  from assms(1) have r: "resp = respond (fst ?c)" and w: "w' = snd ?c"
    by (auto simp: http_create_note_def split: prod.splits)
  show ?thesis
  proof (cases "fst ?c")
    case (Inl ex)
    from create_note_error_kind [OF Inl] have "response_status (respond (Inl ex)) \<noteq> 200"
    proof
      assume "\<exists>d. ex = HTTPException 401 d"
      then show ?thesis by (auto simp: respond_unauthenticated error_envelope_def)
    next
      assume "\<forall>s d. ex \<noteq> HTTPException s d"
      then show ?thesis by (simp add: respond_other error_envelope_def)
    qed
    with assms(2) r Inl show ?thesis by simp
  next
    case (Inr n)
    with r w show ?thesis by (cases ?c) (simp add: respond_def)
  qed
qed

text \<open>
  Claim C9. A note creation that supplies only a title, once authenticated and answered
  by the backend, returns a note whose \<open>position_x\<close> and \<open>position_y\<close> are \<open>0\<close> and
  whose \<open>color\<close> is \<open>#FFEB3B\<close>: through the \<open>create_note\<close> tool, and through the route
  \<open>POST /mcp/create_note\<close> whenever it answers with status 200.
\<close>

theorem create_note_defaults:
  "(\<forall>note w'. create_note e a title None None None w = (Inr note, w') \<longrightarrow>
      subscript note ''position_x'' = Inr (JStr ''0'') \<and>
      subscript note ''position_y'' = Inr (JStr ''0'') \<and>
      subscript note ''color'' = Inr (JStr ''#FFEB3B'')) \<and>
   (\<forall>resp w'. http_create_note e (CreateNoteRequest title None None None) a w = (resp, w') \<and>
        response_status resp = 200 \<longrightarrow>
      subscript (response_content resp) ''position_x'' = Inr (JStr ''0'') \<and>
      subscript (response_content resp) ''position_y'' = Inr (JStr ''0'') \<and>
      subscript (response_content resp) ''color'' = Inr (JStr ''#FFEB3B''))"
proof (intro conjI allI impI)
  fix n w'
  assume "create_note e a title None None None w = (Inr n, w')"
  from create_note_result [OF this] obtain note_id where
    "n = JDict [(''note_id'', note_id), (''title'', JStr title),
                   (''color'', JStr ''#FFEB3B''), (''position_x'', JStr ''0''),
                   (''position_y'', JStr ''0''),
                   (''message'', JStr ''[OK] Nota creata con successo'')]"
    by (auto simp: default_arg_def)
  from note_fields [OF this]
  show "subscript n ''position_x'' = Inr (JStr ''0'')"
    and "subscript n ''position_y'' = Inr (JStr ''0'')"
    and "subscript n ''color'' = Inr (JStr ''#FFEB3B'')"
    by simp_all
next
  fix resp w'
  assume h: "http_create_note e (CreateNoteRequest title None None None) a w = (resp, w') \<and>
        response_status resp = 200"
  from http_create_note_ok [of e "CreateNoteRequest title None None None" a w resp w'] h
  obtain n where
    "create_note e a title (Some ''0'') (Some ''0'') (Some ''#FFEB3B'') w = (Inr n, w')"
    and c: "response_content resp = n"
    by (auto simp: CreateNoteRequest_def default_arg_def)
  from create_note_result [OF this(1)] obtain note_id where
    "n = JDict [(''note_id'', note_id), (''title'', JStr title),
                   (''color'', JStr ''#FFEB3B''), (''position_x'', JStr ''0''),
                   (''position_y'', JStr ''0''),
                   (''message'', JStr ''[OK] Nota creata con successo'')]"
    by (auto simp: default_arg_def)
  from note_fields [OF this] c
  show "subscript (response_content resp) ''position_x'' = Inr (JStr ''0'')"
    and "subscript (response_content resp) ''position_y'' = Inr (JStr ''0'')"
    and "subscript (response_content resp) ''color'' = Inr (JStr ''#FFEB3B'')"
    by simp_all
qed

lemma create_note_env_ok:
  assumes "verify_jwt_token env_ok (clock w) a = Inr u"
  shows "fst (create_note env_ok a title px py col w) =
           Inr (JDict [(''note_id'', JInt 456), (''title'', JStr title),
                       (''color'', JStr (default_arg ''#FFEB3B'' col)),
                       (''position_x'', JStr (default_arg ''0'' px)),
                       (''position_y'', JStr (default_arg ''0'' py)),
                       (''message'', JStr ''[OK] Nota creata con successo'')])"
  using assms
  by (simp add: create_note_def FastAPIClient_create_note_def Let_def send_def env_ok_def
        raise_for_status_def response_json_def subscript_def default_arg_def)

theorem create_note_defaults_witness:
  "fst (create_note env_ok (Some (''Bearer '' @ create_test_token env_ok 1000 1 30))
          ''Test'' None None None world0)
     = Inr (JDict [(''note_id'', JInt 456), (''title'', JStr ''Test''),
                   (''color'', JStr ''#FFEB3B''), (''position_x'', JStr ''0''),
                   (''position_y'', JStr ''0''),
                   (''message'', JStr ''[OK] Nota creata con successo'')]) \<and>
   subscript (JDict [(''note_id'', JInt 456), (''title'', JStr ''Test''),
                     (''color'', JStr ''#FFEB3B''), (''position_x'', JStr ''0''),
                     (''position_y'', JStr ''0''),
                     (''message'', JStr ''[OK] Nota creata con successo'')]) ''position_x''
     = Inr (JStr ''0'') \<and>
   response_status (fst (http_create_note env_ok (CreateNoteRequest ''Test'' None None None)
       (Some (''Bearer '' @ create_test_token env_ok 1000 1 30)) world0)) = 200 \<and>
   subscript (response_content (fst (http_create_note env_ok
       (CreateNoteRequest ''Test'' None None None)
       (Some (''Bearer '' @ create_test_token env_ok 1000 1 30)) world0))) ''color''
     = Inr (JStr ''#FFEB3B'')"
proof -
  let ?a = "Some (''Bearer '' @ create_test_token env_ok 1000 1 30)"
  let ?n = "JDict [(''note_id'', JInt 456), (''title'', JStr ''Test''),
                   (''color'', JStr ''#FFEB3B''), (''position_x'', JStr ''0''),
                   (''position_y'', JStr ''0''),
                   (''message'', JStr ''[OK] Nota creata con successo'')]"
  let ?q = "CreateNoteRequest ''Test'' None None None"
  have v: "verify_jwt_token env_ok (clock world0) ?a = Inr 1"
    by (rule verify_created_token) (simp add: world0_def)
  have c: "create_note env_ok ?a ''Test'' None None None world0
             = (Inr ?n, snd (create_note env_ok ?a ''Test'' None None None world0))"
    using create_note_env_ok [OF v, of "''Test''" None None None]
    by (simp add: prod_eq_iff default_arg_def)
  have c': "fst (create_note env_ok ?a ''Test'' (Some ''0'') (Some ''0'') (Some ''#FFEB3B'') world0)
             = Inr ?n"
    using create_note_env_ok [OF v, of "''Test''" "Some ''0''" "Some ''0''" "Some ''#FFEB3B''"]
    by (simp add: default_arg_def)
  have h: "http_create_note env_ok ?q ?a world0
             = (\<lparr>response_status = 200, response_content = ?n\<rparr>,
                snd (http_create_note env_ok ?q ?a world0))"
    using c'
    by (cases "create_note env_ok ?a ''Test'' (Some ''0'') (Some ''0'') (Some ''#FFEB3B'') world0")
       (simp add: http_create_note_def CreateNoteRequest_def default_arg_def respond_def)
  note T = create_note_defaults [of env_ok ?a "''Test''" world0]
  from T [THEN conjunct1, THEN spec, THEN spec, THEN mp, OF c]
  have 1: "subscript ?n ''position_x'' = Inr (JStr ''0'')" by (elim conjE)
  have "http_create_note env_ok ?q ?a world0
          = (\<lparr>response_status = 200, response_content = ?n\<rparr>,
             snd (http_create_note env_ok ?q ?a world0)) \<and>
        response_status \<lparr>response_status = 200, response_content = ?n\<rparr> = 200"
    using h by simp
  from T [THEN conjunct2, THEN spec, THEN spec, THEN mp, OF this]
  have 2: "subscript ?n ''color'' = Inr (JStr ''#FFEB3B'')" by simp
  from c have 3: "fst (create_note env_ok ?a ''Test'' None None None world0) = Inr ?n"
    by (metis fst_conv)
  from h have 4: "fst (http_create_note env_ok ?q ?a world0)
      = \<lparr>response_status = 200, response_content = ?n\<rparr>" by (metis fst_conv)
  show ?thesis
    unfolding 3 4 using 1 2 by simp
qed

section \<open>Formatting\<close>

lemma end_time_example:
  "format_date_for_mobile ''2025-12-15T18:00:00+00:00''
     = ''Luned'' @ [CHR 0xC3, CHR 0xAC] @ '' 15 dicembre, 18:00''"
  by code_simp

lemma format_example_task:
  "format_task example_task =
     JDict
       [(''id'', JInt 1),
        (''title'', JStr ''Test Task''),
        (''description'', JNull),
        (''endTime'', JStr ''2025-12-15T18:00:00+00:00''),
        (''endTimeFormatted'', JStr (''Luned'' @ [CHR 0xC3, CHR 0xAC] @ '' 15 dicembre, 18:00'')),
        (''category'', JStr ''Lavoro''),
        (''categoryColor'', JStr ''#3B82F6''),
        (''priority'', JStr ''Alta''),
        (''priorityEmoji'', JStr [CHR 0xE2, CHR 0x9A, CHR 0xA1]),
        (''priorityColor'', JStr ''#EF4444''),
        (''status'', JStr ''In sospeso''),
        (''actions'', task_actions example_task)]"
  by (simp add: format_task_def example_task_def dict_get_def str_field_def end_time_example
        get_category_color_def CATEGORY_COLORS_def get_priority_emoji_def get_priority_color_def)

text \<open>
  Claim C4. Formatting the single task with identifier 1, title \<open>Test Task\<close>, end time
  \<open>2025-12-15T18:00:00+00:00\<close>, priority \<open>Alta\<close>, status \<open>In sospeso\<close> and category
  \<open>Lavoro\<close> gives one task view whose \<open>priorityEmoji\<close> is the high-voltage sign, whose
  \<open>categoryColor\<close> is \<open>#3B82F6\<close> and whose \<open>endTimeFormatted\<close> contains the Italian month
  name \<open>dicembre\<close> and the time \<open>18:00\<close>, and a summary with \<open>total\<close> 1 and
  \<open>high_priority\<close> 1.
\<close>

theorem format_example:
  "subscript (format_tasks_for_ui [example_task]) ''tasks'' = Inr (JList [format_task example_task]) \<and>
   subscript (format_task example_task) ''priorityEmoji'' = Inr (JStr [CHR 0xE2, CHR 0x9A, CHR 0xA1]) \<and>
   subscript (format_task example_task) ''categoryColor'' = Inr (JStr ''#3B82F6'') \<and>
   subscript (format_task example_task) ''endTimeFormatted''
     = Inr (JStr (''Luned'' @ [CHR 0xC3, CHR 0xAC] @ '' 15 dicembre, 18:00'')) \<and>
   sublist ''dicembre'' (''Luned'' @ [CHR 0xC3, CHR 0xAC] @ '' 15 dicembre, 18:00'') \<and>
   sublist ''18:00'' (''Luned'' @ [CHR 0xC3, CHR 0xAC] @ '' 15 dicembre, 18:00'') \<and>
   subscript (format_tasks_for_ui [example_task]) ''summary''
     = Inr (JDict (task_summary [example_task])) \<and>
   subscript (JDict (task_summary [example_task])) ''total'' = Inr (JInt 1) \<and>
   subscript (JDict (task_summary [example_task])) ''high_priority'' = Inr (JInt 1)"
proof (intro conjI)
  show "subscript (format_tasks_for_ui [example_task]) ''tasks'' = Inr (JList [format_task example_task])"
    by (simp add: format_tasks_for_ui_def subscript_def)
  show "subscript (format_task example_task) ''priorityEmoji'' = Inr (JStr [CHR 0xE2, CHR 0x9A, CHR 0xA1])"
    by (simp add: format_example_task subscript_def)
  show "subscript (format_task example_task) ''categoryColor'' = Inr (JStr ''#3B82F6'')"
    by (simp add: format_example_task subscript_def)
  show "subscript (format_task example_task) ''endTimeFormatted''
     = Inr (JStr (''Luned'' @ [CHR 0xC3, CHR 0xAC] @ '' 15 dicembre, 18:00''))"
    by (simp add: format_example_task subscript_def)
  have "sublist ''dicembre'' ((''Luned'' @ [CHR 0xC3, CHR 0xAC] @ '' 15 '') @ ''dicembre'' @ '', 18:00'')"
    by (rule sublist_appendI)
  then show "sublist ''dicembre'' (''Luned'' @ [CHR 0xC3, CHR 0xAC] @ '' 15 dicembre, 18:00'')"
    by simp
  have "sublist ''18:00'' ((''Luned'' @ [CHR 0xC3, CHR 0xAC] @ '' 15 dicembre, '') @ ''18:00'')"
    by (rule sublist_append_leftI)
  then show "sublist ''18:00'' (''Luned'' @ [CHR 0xC3, CHR 0xAC] @ '' 15 dicembre, 18:00'')"
    by simp
  show "subscript (format_tasks_for_ui [example_task]) ''summary''
     = Inr (JDict (task_summary [example_task]))"
    by (simp add: format_tasks_for_ui_def subscript_def)
  show "subscript (JDict (task_summary [example_task])) ''total'' = Inr (JInt 1)"
    by (simp add: task_summary_def subscript_def)
  show "subscript (JDict (task_summary [example_task])) ''high_priority'' = Inr (JInt 1)"
    by (simp add: task_summary_def subscript_def count_field_def example_task_def dict_get_def)
qed

lemma dict_get_JStr: "dict_get t k = JStr v \<longleftrightarrow> map_of t k = Some (JStr v)"
  by (simp add: dict_get_def split: option.splits)

lemma count_field_eq:
  "count_field k v tasks = length (filter (\<lambda>t. map_of t k = Some (JStr v)) tasks)"
  by (simp add: count_field_def dict_get_JStr)

lemma count_field_le: "count_field k v tasks \<le> length tasks"
  by (simp add: count_field_def)

lemma count_field_disjoint:
  "v \<noteq> v' \<Longrightarrow> count_field k v tasks + count_field k v' tasks \<le> length tasks"
  by (induction tasks) (auto simp: count_field_def)

text \<open>
  Claim C5. For every task list the summary of \<open>format_tasks_for_ui\<close> has \<open>total\<close> equal
  to the length of the list and \<open>high_priority\<close> equal to the number of tasks whose
  priority is \<open>Alta\<close>; the pending and the completed count together do not exceed the
  total, and neither does the high-priority count.
\<close>

theorem summary_counts:
  "subscript (format_tasks_for_ui tasks) ''summary'' = Inr (JDict (task_summary tasks)) \<and>
   subscript (JDict (task_summary tasks)) ''total'' = Inr (JInt (int (length tasks))) \<and>
   subscript (JDict (task_summary tasks)) ''high_priority''
     = Inr (JInt (int (length (filter (\<lambda>t. map_of t ''priority'' = Some (JStr ''Alta'')) tasks)))) \<and>
   subscript (JDict (task_summary tasks)) ''pending''
     = Inr (JInt (int (count_field ''status'' PENDING tasks))) \<and>
   subscript (JDict (task_summary tasks)) ''completed''
     = Inr (JInt (int (count_field ''status'' COMPLETED tasks))) \<and>
   count_field ''status'' PENDING tasks + count_field ''status'' COMPLETED tasks \<le> length tasks \<and>
   length (filter (\<lambda>t. map_of t ''priority'' = Some (JStr ''Alta'')) tasks) \<le> length tasks"
proof (intro conjI)
  show "subscript (format_tasks_for_ui tasks) ''summary'' = Inr (JDict (task_summary tasks))"
    by (simp add: format_tasks_for_ui_def subscript_def)
  show "subscript (JDict (task_summary tasks)) ''total'' = Inr (JInt (int (length tasks)))"
    by (simp add: task_summary_def subscript_def)
  show "subscript (JDict (task_summary tasks)) ''high_priority''
     = Inr (JInt (int (length (filter (\<lambda>t. map_of t ''priority'' = Some (JStr ''Alta'')) tasks))))"
    by (simp add: task_summary_def subscript_def count_field_eq)
  show "subscript (JDict (task_summary tasks)) ''pending''
     = Inr (JInt (int (count_field ''status'' PENDING tasks)))"
    by (simp add: task_summary_def subscript_def)
  show "subscript (JDict (task_summary tasks)) ''completed''
     = Inr (JInt (int (count_field ''status'' COMPLETED tasks)))"
    by (simp add: task_summary_def subscript_def)
  have "PENDING \<noteq> COMPLETED" by (simp add: PENDING_def COMPLETED_def)
  then show "count_field ''status'' PENDING tasks + count_field ''status'' COMPLETED tasks
               \<le> length tasks"
    by (rule count_field_disjoint)
  show "length (filter (\<lambda>t. map_of t ''priority'' = Some (JStr ''Alta'')) tasks) \<le> length tasks"
    by simp
qed

section \<open>The health probe\<close>

text \<open>
  Claim C7. \<open>FastAPIClient.health_check\<close> never raises: whatever the transport does with
  the probe, the method returns a dictionary; and when the probe raises, the dictionary
  is the \<open>unhealthy\<close> report with the text of the exception.
\<close>

theorem health_check_never_raises:
  "(\<exists>d. fst (FastAPIClient_health_check e w) = Inr (JDict d)) \<and>
   (\<forall>cls msg. transport e (health_request e) = Inl (cls, msg) \<longrightarrow>
      fst (FastAPIClient_health_check e w) =
        Inr (JDict [(''status'', JStr ''unhealthy''), (''error'', JStr msg)]))"
  by (auto simp: FastAPIClient_health_check_def send_def split: sum.splits prod.splits)

theorem health_check_never_raises_witness:
  "transport env_down (health_request env_down) =
     Inl (''ConnectError'', ''All connection attempts failed'') \<and>
   fst (FastAPIClient_health_check env_down world0) =
     Inr (JDict [(''status'', JStr ''unhealthy''),
                 (''error'', JStr ''All connection attempts failed'')])"
  using health_check_never_raises [of env_down world0]
  by (simp add: env_down_def)

text \<open>
  Claim C10. Whenever the probe of \<open>/health\<close> returns a response, whatever its status
  code, the client reports \<open>healthy\<close> with that code and the \<open>health_check\<close> tool reports
  the backend as \<open>healthy\<close>; \<open>unhealthy\<close> is reported exactly when the probe raises.
\<close>

theorem health_ignores_status_code:
  "(\<forall>response. transport e (health_request e) = Inr response \<longrightarrow>
      fst (FastAPIClient_health_check e w) =
        Inr (JDict [(''status'', JStr ''healthy''),
                    (''code'', JInt (int (status_code response)))]) \<and>
      (\<exists>d. fst (health_check e w) = Inr (JDict d) \<and>
           map_of d ''fastapi_server'' = Some (JStr ''healthy''))) \<and>
   ((\<exists>d. fst (FastAPIClient_health_check e w) = Inr (JDict d) \<and>
         map_of d ''status'' = Some (JStr ''unhealthy''))
    \<longleftrightarrow> (\<exists>cls msg. transport e (health_request e) = Inl (cls, msg)))"
  by (auto simp: FastAPIClient_health_check_def health_check_def send_def dict_get_default_def
           split: sum.splits prod.splits)

theorem health_ignores_status_code_witness:
  "transport env_503 (health_request env_503) =
     Inr \<lparr>status_code = 503, reason_phrase = ''Service Unavailable'',
          json_content = Inl ''Expecting value''\<rparr> \<and>
   fst (FastAPIClient_health_check env_503 world0) =
     Inr (JDict [(''status'', JStr ''healthy''), (''code'', JInt 503)])"
  using health_ignores_status_code [of env_503 world0]
  by (simp add: env_503_def)

end
